theory Spec2Isabelle
  imports Main "HOL-Library.Word"
begin

section \<open>Data model\<close>

text \<open>
  The graphsync transport of go-data-transfer: the \<^verbatim>\<open>Transport\<close> struct of package
  \<^verbatim>\<open>graphsync\<close>, its exposed operations, its graphsync hooks, and the side-channel
  receiver of package \<^verbatim>\<open>impl\<close>.

  Peers (\<^verbatim>\<open>peer.ID\<close>, a Go string), links, selector nodes and content ids are opaque
  strings; a transfer id is a \<^verbatim>\<open>uint64\<close>; a graphsync request id (an \<^verbatim>\<open>int32\<close>) is only
  ever compared for equality and is an integer here.
\<close>

type_synonym peer = string
type_synonym TransferID = "64 word"
type_synonym RequestID = int
type_synonym bytes = "8 word list"
type_synonym Link = string
type_synonym Node = string
type_synonym Cid = string

text \<open>
  Go errors. The sentinels of package \<^verbatim>\<open>transport\<close> are compared by identity in the
  source (\<^verbatim>\<open>err == transport.ErrPause\<close>); \<^verbatim>\<open>errors.New(s)\<close> is \<open>ErrorNew s\<close>;
  \<open>RequestCancelledErr\<close> is graphsync's error type of that name.
\<close>

datatype error =
    ErrPause
  | ErrResume
  | ErrChannelNotFound
  | ErrHandlerNotSet
  | ErrHandlerAlreadySet
  | errContextCancelled
  | RequestCancelledErr
  | ErrorNew string

text \<open>
  \<^verbatim>\<open>datatransfer.ChannelID\<close>: the source builds every channel id as
  \<^verbatim>\<open>ChannelID{Initiator: ..., ID: ...}\<close>, so these are the two fields modelled.
\<close>

record ChannelID =
  Initiator :: peer
  ID :: TransferID

text \<open>\<^verbatim>\<open>graphsyncKey{requestID, p}\<close>.\<close>

record graphsyncKey =
  requestID :: RequestID
  keyPeer :: peer

text \<open>\<^verbatim>\<open>responseProgress{currentSent, maximumSent}\<close>, both \<^verbatim>\<open>uint64\<close>.\<close>

record responseProgress =
  currentSent :: "64 word"
  maximumSent :: "64 word"

subsection \<open>Messages\<close>

text \<open>\<^verbatim>\<open>transferResponse\<close> of package \<^verbatim>\<open>message\<close> (\<^verbatim>\<open>VRes\<close> is a pointer, hence optional).\<close>

record transferResponse =
  Acpt :: bool
  Updt :: bool
  XferID :: "64 word"
  VRes :: "bytes option"
  VTyp :: string

text \<open>
  Modelled from the spec: the request record of package \<^verbatim>\<open>message\<close> is not among the
  sources; its fields are those of the wire layout (\<^verbatim>\<open>Request.BCid\<close>, \<^verbatim>\<open>Stor\<close>,
  \<^verbatim>\<open>Vouch\<close>, \<^verbatim>\<open>VTyp\<close>, \<^verbatim>\<open>Part\<close>, \<^verbatim>\<open>Pull\<close>, \<^verbatim>\<open>XferID\<close>).
\<close>

record transferRequest =
  ReqBCid :: Cid
  ReqStor :: bytes
  ReqVouch :: bytes
  ReqVTyp :: string
  ReqPart :: bool
  ReqPull :: bool
  ReqXferID :: "64 word"

text \<open>
  The interface \<^verbatim>\<open>message.DataTransferMessage\<close> has the two implementations above;
  a type assertion \<^verbatim>\<open>msg.(message.DataTransferRequest)\<close> is a match on the constructor.
\<close>

datatype DataTransferMessage =
    Request transferRequest
  | Response transferResponse

fun IsRequest :: "DataTransferMessage \<Rightarrow> bool" where
  "IsRequest (Request r) = True"
| "IsRequest (Response r) = False"

fun TransferID :: "DataTransferMessage \<Rightarrow> TransferID" where
  "TransferID (Request r) = ReqXferID r"
| "TransferID (Response r) = XferID r"

definition IsUpdate :: "transferResponse \<Rightarrow> bool" where
  "IsUpdate trsp = Updt trsp"

definition Accepted :: "transferResponse \<Rightarrow> bool" where
  "Accepted trsp = Acpt trsp"

definition IsPull :: "transferRequest \<Rightarrow> bool" where
  "IsPull trq = ReqPull trq"

definition BaseCid :: "transferRequest \<Rightarrow> Cid" where
  "BaseCid trq = ReqBCid trq"

subsection \<open>The signalling codec and the extension package\<close>

text \<open>
  The CBOR codec (\<^verbatim>\<open>ToNet\<close>, \<^verbatim>\<open>FromNet\<close>) and the selector decoder behind
  \<^verbatim>\<open>DataTransferRequest.Selector()\<close> are libraries outside the sources; they are
  parameters of the model. Both directions may fail.
\<close>

record codec =
  ToNet :: "DataTransferMessage \<Rightarrow> error + bytes"
  FromNet :: "bytes \<Rightarrow> error + DataTransferMessage"
  Selector :: "transferRequest \<Rightarrow> error + Node"

record ExtensionData =
  Name :: string
  Data :: bytes

definition ExtensionDataTransfer :: string where
  "ExtensionDataTransfer = ''fil/data-transfer''"

text \<open>
  Modelled from the spec: \<^verbatim>\<open>extension.ToExtensionData\<close> is not among the sources. It
  encodes the message and wraps the bytes under the extension name; it fails when the
  encoding fails.
\<close>

definition ToExtensionData :: "codec \<Rightarrow> DataTransferMessage \<Rightarrow> error + ExtensionData" where
  "ToExtensionData cdc msg =
     (case ToNet cdc msg of
        Inl err \<Rightarrow> Inl err
      | Inr buf \<Rightarrow> Inr \<lparr>Name = ExtensionDataTransfer, Data = buf\<rparr>)"

text \<open>
  Modelled from the spec: \<^verbatim>\<open>extension.GetTransferData\<close> is not among the sources. It
  returns \<open>(msg, nil)\<close> when the extension is present and parses, \<open>(nil, nil)\<close> when it is
  absent, and \<open>(nil, err)\<close> when it is present but does not parse. The argument is the
  \<^verbatim>\<open>Extension(name)\<close> method of a graphsync request, response or update.
\<close>

definition GetTransferData ::
  "codec \<Rightarrow> (string \<rightharpoonup> bytes) \<Rightarrow> DataTransferMessage option \<times> error option" where
  "GetTransferData cdc extendedData =
     (case extendedData ExtensionDataTransfer of
        None \<Rightarrow> (None, None)
      | Some data \<Rightarrow>
          (case FromNet cdc data of
             Inl err \<Rightarrow> (None, Some err)
           | Inr msg \<Rightarrow> (Some msg, None)))"

subsection \<open>Graphsync data\<close>

text \<open>
  \<^verbatim>\<open>graphsync.RequestData\<close>, \<^verbatim>\<open>ResponseData\<close> and \<^verbatim>\<open>BlockData\<close>, as far as the
  transport reads them. The status codes are those the transport tests for, and any
  other code.
\<close>

datatype ResponseStatusCode =
    RequestCompletedFull
  | RequestCompletedPartial
  | RequestCancelled
  | RequestOtherStatus int

record RequestData =
  reqID :: RequestID
  reqExtension :: "string \<rightharpoonup> bytes"

record ResponseData =
  respRequestID :: RequestID
  respExtension :: "string \<rightharpoonup> bytes"
  respStatus :: ResponseStatusCode

record BlockData =
  blockLink :: Link
  BlockSize :: "64 word"

subsection \<open>Collaborators: the event handler and the block transport\<close>

text \<open>
  \<^verbatim>\<open>transport.Events\<close> is implemented by the enclosing manager and
  \<^verbatim>\<open>graphsync.GraphExchange\<close> by the block transport. Both are outside the core: a
  method is a function on the collaborators' state \<open>'h\<close>, returning the method's results
  and the new state. A message result may be \<^verbatim>\<open>nil\<close>, an error result may be \<^verbatim>\<open>nil\<close>.
\<close>

record 'h Events =
  OnChannelOpened :: "'h \<Rightarrow> ChannelID \<Rightarrow> error option \<times> 'h"
  OnDataReceived :: "'h \<Rightarrow> ChannelID \<Rightarrow> Link \<Rightarrow> 64 word \<Rightarrow> error option \<times> 'h"
  OnDataSent ::
    "'h \<Rightarrow> ChannelID \<Rightarrow> Link \<Rightarrow> 64 word \<Rightarrow> (DataTransferMessage option \<times> error option) \<times> 'h"
  OnRequestReceived ::
    "'h \<Rightarrow> ChannelID \<Rightarrow> transferRequest \<Rightarrow> (transferResponse option \<times> error option) \<times> 'h"
  OnResponseReceived :: "'h \<Rightarrow> ChannelID \<Rightarrow> transferResponse \<Rightarrow> error option \<times> 'h"
  OnChannelCompleted :: "'h \<Rightarrow> ChannelID \<Rightarrow> bool \<Rightarrow> error option \<times> 'h"

record 'h GraphExchange =
  gsRequest :: "'h \<Rightarrow> peer \<Rightarrow> Link \<Rightarrow> Node option \<Rightarrow> ExtensionData \<Rightarrow> 'h"
  PauseRequest :: "'h \<Rightarrow> RequestID \<Rightarrow> error option \<times> 'h"
  UnpauseRequest :: "'h \<Rightarrow> RequestID \<Rightarrow> ExtensionData list \<Rightarrow> error option \<times> 'h"
  PauseResponse :: "'h \<Rightarrow> peer \<Rightarrow> RequestID \<Rightarrow> error option \<times> 'h"
  UnpauseResponse :: "'h \<Rightarrow> peer \<Rightarrow> RequestID \<Rightarrow> ExtensionData list \<Rightarrow> error option \<times> 'h"
  CancelResponse :: "'h \<Rightarrow> peer \<Rightarrow> RequestID \<Rightarrow> error option \<times> 'h"

text \<open>
  Everything the transport does to the outside is recorded, in order: the events it
  raises, the calls it makes on the block transport, the cancel functions it invokes
  and the pending-signals it closes.
\<close>

datatype effect =
    EvChannelOpened ChannelID
  | EvDataReceived ChannelID Link "64 word"
  | EvDataSent ChannelID Link "64 word"
  | EvRequestReceived ChannelID transferRequest
  | EvResponseReceived ChannelID transferResponse
  | EvChannelCompleted ChannelID bool
  | GsRequest peer Link "Node option" ExtensionData
  | GsPauseRequest RequestID
  | GsUnpauseRequest RequestID "ExtensionData list"
  | GsPauseResponse peer RequestID
  | GsUnpauseResponse peer RequestID "ExtensionData list"
  | GsCancelResponse peer RequestID
  | CancelFn ChannelID
  | ClosePending ChannelID

text \<open>The calls a hook makes on its \<^verbatim>\<open>hookActions\<close> argument, in order.\<close>

datatype hookAction =
    TerminateWithError "error option"
  | ActPauseRequest
  | ActPauseResponse
  | SendExtensionData ExtensionData
  | UpdateRequestWithExtensions ExtensionData
  | ValidateRequest

subsection \<open>The transport\<close>

text \<open>
  The \<^verbatim>\<open>Transport\<close> struct. \<^verbatim>\<open>events\<close> is \<^verbatim>\<open>nil\<close> until \<^verbatim>\<open>SetEventHandler\<close>. A cancel
  function and a pending-signal carry no data of their own (invoking or closing one is
  an effect), and \<^verbatim>\<open>map[ChannelID]struct{}\<close> is a map to the unit value. Each
  \<^verbatim>\<open>*responseProgress\<close> is created in the incoming-request hook and stored under one
  channel id only, so the map holds the record itself; a missing entry reads as the
  \<^verbatim>\<open>nil\<close> pointer.
\<close>

record 'h Transport =
  events :: "'h Events option"
  gs :: "'h GraphExchange"
  peerID :: peer
  graphsyncRequestMap :: "graphsyncKey \<rightharpoonup> ChannelID"
  channelIDMap :: "ChannelID \<rightharpoonup> graphsyncKey"
  contextCancelMap :: "ChannelID \<rightharpoonup> unit"
  pending :: "ChannelID \<rightharpoonup> unit"
  requestorCancelledMap :: "ChannelID \<rightharpoonup> unit"
  pendingExtensions :: "ChannelID \<rightharpoonup> ExtensionData list"
  responseProgressMap :: "ChannelID \<rightharpoonup> responseProgress"

text \<open>
  The state of a run: the transport, the state of its collaborators, and the effects
  so far. Every operation below is one atomic step on this state (the source's lock
  makes the map updates of one operation atomic; interleavings of the unlocked parts
  are not modelled).
\<close>

record 'h World =
  tr :: "'h Transport"
  hs :: "'h"
  effects :: "effect list"

definition NewTransport :: "peer \<Rightarrow> 'h GraphExchange \<Rightarrow> 'h Transport" where
  "NewTransport pid g =
     \<lparr>events = None, gs = g, peerID = pid,
      graphsyncRequestMap = Map.empty, channelIDMap = Map.empty,
      contextCancelMap = Map.empty, pending = Map.empty,
      requestorCancelledMap = Map.empty, pendingExtensions = Map.empty,
      responseProgressMap = Map.empty\<rparr>"

text \<open>A method call on a collaborator: run it on the collaborators' state and record it.\<close>

definition invoke :: "('h \<Rightarrow> 'r \<times> 'h) \<Rightarrow> effect \<Rightarrow> 'h World \<Rightarrow> 'r \<times> 'h World" where
  "invoke m e w =
     (let (r, h') = m (hs w) in (r, w\<lparr>hs := h', effects := effects w @ [e]\<rparr>))"

text \<open>
  The result of a control call: it returns an error value (\<^verbatim>\<open>nil\<close> is \<open>None\<close>), or it
  is suspended on the pending-signal of its channel.
\<close>

datatype ret = Returns "error option" | Suspended

text \<open>
  The result of a hook or listener: it runs to its end, or it panics (a method call on
  the \<^verbatim>\<open>nil\<close> events handler, a field access through a \<^verbatim>\<open>nil\<close> pointer, a failed
  type assertion).
\<close>

datatype 'a run = Panic | Done 'a

section \<open>Exposed operations\<close>

text \<open>
  \<^verbatim>\<open>OpenChannel\<close>. The request is handed to the block transport; its error stream is
  consumed by \<^verbatim>\<open>executeGsRequest\<close>, a separate step.
\<close>

definition OpenChannel ::
  "codec \<Rightarrow> peer \<Rightarrow> ChannelID \<Rightarrow> Link \<Rightarrow> Node option \<Rightarrow> DataTransferMessage \<Rightarrow> 'h World
     \<Rightarrow> error option \<times> 'h World" where
  "OpenChannel cdc dataSender channelID root stor msg w =
     (case events (tr w) of
        None \<Rightarrow> (Some ErrHandlerNotSet, w)
      | Some ev \<Rightarrow>
          (case ToExtensionData cdc msg of
             Inl err \<Rightarrow> (Some err, w)
           | Inr ext \<Rightarrow>
               (let t = tr w;
                    t1 = t\<lparr>pending := (pending t)(channelID \<mapsto> ()),
                           contextCancelMap := (contextCancelMap t)(channelID \<mapsto> ())\<rparr>;
                    h' = gsRequest (gs t) (hs w) dataSender root stor ext
                in (None, w\<lparr>tr := t1, hs := h',
                             effects := effects w @ [GsRequest dataSender root stor ext]\<rparr>))))"

text \<open>
  \<^verbatim>\<open>executeGsRequest\<close>, run when the error stream has been consumed: \<open>lastError\<close> is
  what \<^verbatim>\<open>consumeResponses\<close> returned.
\<close>

definition executeGsRequest :: "ChannelID \<Rightarrow> error option \<Rightarrow> 'h World \<Rightarrow> 'h World run" where
  "executeGsRequest channelID lastError w =
     (case (if lastError \<noteq> Some RequestCancelledErr
            then (case events (tr w) of
                    None \<Rightarrow> Panic
                  | Some ev \<Rightarrow>
                      Done (snd (invoke (\<lambda>h. OnChannelCompleted ev h channelID (lastError = None))
                                   (EvChannelCompleted channelID (lastError = None)) w)))
            else Done w) of
        Panic \<Rightarrow> Panic
      | Done w1 \<Rightarrow>
          (let t = tr w1;
               t1 = t\<lparr>channelIDMap := (channelIDMap t)(channelID := None),
                      contextCancelMap := (contextCancelMap t)(channelID := None),
                      pending := (pending t)(channelID := None)\<rparr>;
               t2 = (case channelIDMap t channelID of
                       None \<Rightarrow> t1
                     | Some gsKey \<Rightarrow>
                         t1\<lparr>graphsyncRequestMap := (graphsyncRequestMap t1)(gsKey := None)\<rparr>)
           in Done (w1\<lparr>tr := t2\<rparr>)))"

text \<open>
  \<^verbatim>\<open>gsKeyFromChannelID\<close>. One pass of its loop on the current maps: the key when the
  channel is bound; \<^verbatim>\<open>ErrChannelNotFound\<close> when nothing is pending, or when the context
  is done while waiting; otherwise the caller waits on the pending-signal (\<open>None\<close>) and
  runs the loop again once it is closed.
\<close>

definition gsKeyFromChannelID ::
  "bool \<Rightarrow> ChannelID \<Rightarrow> 'h Transport \<Rightarrow> (error + graphsyncKey) option" where
  "gsKeyFromChannelID ctxDone chid t =
     (case channelIDMap t chid of
        Some gsKey \<Rightarrow> Some (Inr gsKey)
      | None \<Rightarrow>
          (case pending t chid of
             None \<Rightarrow> Some (Inl ErrChannelNotFound)
           | Some _ \<Rightarrow> if ctxDone then Some (Inl ErrChannelNotFound) else None))"

text \<open>\<^verbatim>\<open>cleanupChannel\<close>.\<close>

definition cleanupChannel :: "ChannelID \<Rightarrow> graphsyncKey \<Rightarrow> 'h Transport \<Rightarrow> 'h Transport" where
  "cleanupChannel chid gsKey t =
     t\<lparr>channelIDMap := (channelIDMap t)(chid := None),
       contextCancelMap := (contextCancelMap t)(chid := None),
       pending := (pending t)(chid := None),
       graphsyncRequestMap := (graphsyncRequestMap t)(gsKey := None),
       responseProgressMap := (responseProgressMap t)(chid := None),
       pendingExtensions := (pendingExtensions t)(chid := None),
       requestorCancelledMap := (requestorCancelledMap t)(chid := None)\<rparr>"

text \<open>\<^verbatim>\<open>PauseChannel\<close>.\<close>

definition PauseChannel :: "bool \<Rightarrow> ChannelID \<Rightarrow> 'h World \<Rightarrow> ret \<times> 'h World" where
  "PauseChannel ctxDone chid w =
     (case events (tr w) of
        None \<Rightarrow> (Returns (Some ErrHandlerNotSet), w)
      | Some ev \<Rightarrow>
          (case gsKeyFromChannelID ctxDone chid (tr w) of
             None \<Rightarrow> (Suspended, w)
           | Some (Inl err) \<Rightarrow> (Returns (Some err), w)
           | Some (Inr gsKey) \<Rightarrow>
               if keyPeer gsKey = peerID (tr w)
               then (let (r, w') = invoke (\<lambda>h. PauseRequest (gs (tr w)) h (requestID gsKey))
                                     (GsPauseRequest (requestID gsKey)) w
                     in (Returns r, w'))
               else if requestorCancelledMap (tr w) chid \<noteq> None
               then (Returns None, w)
               else (let (r, w') =
                           invoke (\<lambda>h. PauseResponse (gs (tr w)) h (keyPeer gsKey) (requestID gsKey))
                             (GsPauseResponse (keyPeer gsKey) (requestID gsKey)) w
                     in (Returns r, w'))))"

text \<open>\<^verbatim>\<open>ResumeChannel\<close>; \<open>msg\<close> may be \<^verbatim>\<open>nil\<close>.\<close>

definition ResumeChannel ::
  "codec \<Rightarrow> bool \<Rightarrow> DataTransferMessage option \<Rightarrow> ChannelID \<Rightarrow> 'h World \<Rightarrow> ret \<times> 'h World" where
  "ResumeChannel cdc ctxDone msg chid w =
     (case events (tr w) of
        None \<Rightarrow> (Returns (Some ErrHandlerNotSet), w)
      | Some ev \<Rightarrow>
          (case gsKeyFromChannelID ctxDone chid (tr w) of
             None \<Rightarrow> (Suspended, w)
           | Some (Inl err) \<Rightarrow> (Returns (Some err), w)
           | Some (Inr gsKey) \<Rightarrow>
               (case (case msg of
                        None \<Rightarrow> Inr []
                      | Some m \<Rightarrow>
                          (case ToExtensionData cdc m of
                             Inl err \<Rightarrow> Inl err
                           | Inr msgExt \<Rightarrow> Inr [msgExt])) of
                  Inl err \<Rightarrow> (Returns (Some err), w)
                | Inr extensions \<Rightarrow>
                    if keyPeer gsKey = peerID (tr w)
                    then (let (r, w') =
                                invoke (\<lambda>h. UnpauseRequest (gs (tr w)) h (requestID gsKey) extensions)
                                  (GsUnpauseRequest (requestID gsKey) extensions) w
                          in (Returns r, w'))
                    else if requestorCancelledMap (tr w) chid \<noteq> None
                    then (let t = tr w;
                              queued = (case pendingExtensions t chid of None \<Rightarrow> [] | Some q \<Rightarrow> q)
                          in (Returns None,
                              w\<lparr>tr := t\<lparr>pendingExtensions :=
                                          (pendingExtensions t)(chid \<mapsto> queued @ extensions)\<rparr>\<rparr>))
                    else (let (r, w') =
                                invoke (\<lambda>h. UnpauseResponse (gs (tr w)) h (keyPeer gsKey)
                                               (requestID gsKey) extensions)
                                  (GsUnpauseResponse (keyPeer gsKey) (requestID gsKey) extensions) w
                          in (Returns r, w')))))"

text \<open>\<^verbatim>\<open>CloseChannel\<close>.\<close>

definition CloseChannel :: "bool \<Rightarrow> ChannelID \<Rightarrow> 'h World \<Rightarrow> ret \<times> 'h World" where
  "CloseChannel ctxDone chid w =
     (case events (tr w) of
        None \<Rightarrow> (Returns (Some ErrHandlerNotSet), w)
      | Some ev \<Rightarrow>
          (case gsKeyFromChannelID ctxDone chid (tr w) of
             None \<Rightarrow> (Suspended, w)
           | Some (Inl err) \<Rightarrow> (Returns (Some err), w)
           | Some (Inr gsKey) \<Rightarrow>
               if keyPeer gsKey = peerID (tr w)
               then (case contextCancelMap (tr w) chid of
                       None \<Rightarrow> (Returns (Some ErrChannelNotFound), w)
                     | Some cancelFn \<Rightarrow>
                         (Returns None, w\<lparr>effects := effects w @ [CancelFn chid]\<rparr>))
               else if requestorCancelledMap (tr w) chid \<noteq> None
               then (Returns None, w\<lparr>tr := cleanupChannel chid gsKey (tr w)\<rparr>)
               else (let (r, w') =
                           invoke (\<lambda>h. CancelResponse (gs (tr w)) h (keyPeer gsKey) (requestID gsKey))
                             (GsCancelResponse (keyPeer gsKey) (requestID gsKey)) w
                     in (Returns r, w'))))"

text \<open>\<^verbatim>\<open>CleanupChannel\<close>.\<close>

definition CleanupChannel :: "ChannelID \<Rightarrow> 'h World \<Rightarrow> 'h World" where
  "CleanupChannel chid w =
     (case channelIDMap (tr w) chid of
        None \<Rightarrow> w
      | Some gsKey \<Rightarrow> w\<lparr>tr := cleanupChannel chid gsKey (tr w)\<rparr>)"

text \<open>
  \<^verbatim>\<open>SetEventHandler\<close>. Registering the hooks with the block transport changes nothing
  in the transport itself; from then on the block transport may run the hooks below.
\<close>

definition SetEventHandler :: "'h Events \<Rightarrow> 'h World \<Rightarrow> error option \<times> 'h World" where
  "SetEventHandler evs w =
     (case events (tr w) of
        Some ev \<Rightarrow> (Some ErrHandlerAlreadySet, w)
      | None \<Rightarrow> (None, w\<lparr>tr := (tr w)\<lparr>events := Some evs\<rparr>\<rparr>))"

section \<open>Graphsync hooks\<close>

text \<open>
  Each hook is given the peer and the graphsync data of the callback, and returns the
  calls it made on its \<^verbatim>\<open>hookActions\<close>, in order, with the new state.
\<close>

text \<open>\<^verbatim>\<open>gsOutgoingRequestHook\<close>.\<close>

definition gsOutgoingRequestHook ::
  "codec \<Rightarrow> peer \<Rightarrow> RequestData \<Rightarrow> 'h World \<Rightarrow> (hookAction list \<times> 'h World) run" where
  "gsOutgoingRequestHook cdc p request w =
     (case fst (GetTransferData cdc (reqExtension request)) of
        None \<Rightarrow> Done ([], w)
      | Some message \<Rightarrow>
          (let initiator = (if IsRequest message then peerID (tr w) else p);
               chid = \<lparr>Initiator = initiator, ID = TransferID message\<rparr>
           in (case events (tr w) of
                 None \<Rightarrow> Panic
               | Some ev \<Rightarrow>
                   (let (err, w1) = invoke (\<lambda>h. OnChannelOpened ev h chid) (EvChannelOpened chid) w;
                        t1 = tr w1;
                        gsKey = \<lparr>requestID = reqID request, keyPeer = peerID t1\<rparr>;
                        t2 = (if err = None
                              then t1\<lparr>graphsyncRequestMap := (graphsyncRequestMap t1)(gsKey \<mapsto> chid),
                                      channelIDMap := (channelIDMap t1)(chid \<mapsto> gsKey)\<rparr>
                              else t1)
                    in (case pending t2 chid of
                          None \<Rightarrow> Done ([], w1\<lparr>tr := t2\<rparr>)
                        | Some pnd \<Rightarrow>
                            Done ([], w1\<lparr>tr := t2\<lparr>pending := (pending t2)(chid := None)\<rparr>,
                                         effects := effects w1 @ [ClosePending chid]\<rparr>))))))"

text \<open>\<^verbatim>\<open>gsIncomingBlockHook\<close>.\<close>

definition gsIncomingBlockHook ::
  "peer \<Rightarrow> ResponseData \<Rightarrow> BlockData \<Rightarrow> 'h World \<Rightarrow> (hookAction list \<times> 'h World) run" where
  "gsIncomingBlockHook p response block w =
     (case graphsyncRequestMap (tr w)
             \<lparr>requestID = respRequestID response, keyPeer = peerID (tr w)\<rparr> of
        None \<Rightarrow> Done ([], w)
      | Some chid \<Rightarrow>
          (case events (tr w) of
             None \<Rightarrow> Panic
           | Some ev \<Rightarrow>
               (let (err, w1) =
                      invoke (\<lambda>h. OnDataReceived ev h chid (blockLink block) (BlockSize block))
                        (EvDataReceived chid (blockLink block) (BlockSize block)) w
                in if err \<noteq> None \<and> err \<noteq> Some ErrPause
                   then Done ([TerminateWithError err], w1)
                   else if err = Some ErrPause
                   then Done ([ActPauseRequest], w1)
                   else Done ([], w1))))"

text \<open>
  \<^verbatim>\<open>gsOutgoingBlockHook\<close>. \<^verbatim>\<open>rp.currentSent += block.BlockSize()\<close> is \<^verbatim>\<open>uint64\<close>
  addition and is kept whichever way the hook leaves.
\<close>

definition gsOutgoingBlockHook ::
  "codec \<Rightarrow> peer \<Rightarrow> RequestData \<Rightarrow> BlockData \<Rightarrow> 'h World \<Rightarrow> (hookAction list \<times> 'h World) run" where
  "gsOutgoingBlockHook cdc p request block w =
     (case graphsyncRequestMap (tr w) \<lparr>requestID = reqID request, keyPeer = p\<rparr> of
        None \<Rightarrow> Done ([], w)
      | Some chid \<Rightarrow>
          (case responseProgressMap (tr w) chid of
             None \<Rightarrow> Panic
           | Some rp \<Rightarrow>
               (let rp1 = rp\<lparr>currentSent := currentSent rp + BlockSize block\<rparr>;
                    w1 = w\<lparr>tr := (tr w)\<lparr>responseProgressMap :=
                                          (responseProgressMap (tr w))(chid \<mapsto> rp1)\<rparr>\<rparr>
                in if currentSent rp1 \<le> maximumSent rp1
                   then Done ([], w1)
                   else
                     (let rp2 = rp1\<lparr>maximumSent := currentSent rp1\<rparr>;
                          w2 = w\<lparr>tr := (tr w)\<lparr>responseProgressMap :=
                                                (responseProgressMap (tr w))(chid \<mapsto> rp2)\<rparr>\<rparr>
                      in (case events (tr w) of
                            None \<Rightarrow> Panic
                          | Some ev \<Rightarrow>
                              (let ((msg, err), w3) =
                                     invoke (\<lambda>h. OnDataSent ev h chid (blockLink block) (BlockSize block))
                                       (EvDataSent chid (blockLink block) (BlockSize block)) w2
                               in if err \<noteq> None \<and> err \<noteq> Some ErrPause
                                  then Done ([TerminateWithError err], w3)
                                  else
                                    (let acts = (if err = Some ErrPause then [ActPauseResponse] else [])
                                     in (case msg of
                                           None \<Rightarrow> Done (acts, w3)
                                         | Some m \<Rightarrow>
                                             (case ToExtensionData cdc m of
                                                Inl e \<Rightarrow> Done (acts @ [TerminateWithError (Some e)], w3)
                                              | Inr ext \<Rightarrow>
                                                  Done (acts @ [SendExtensionData ext], w3))))))))))"

text \<open>
  \<^verbatim>\<open>gsReqRecdHook\<close>. When encoding the handler's response fails the source terminates
  with the handler's error \<^verbatim>\<open>err\<close>, not with the encoding error.
\<close>

definition gsReqRecdHook ::
  "codec \<Rightarrow> peer \<Rightarrow> RequestData \<Rightarrow> 'h World \<Rightarrow> (hookAction list \<times> 'h World) run" where
  "gsReqRecdHook cdc p request w =
     (let (msg, err) = GetTransferData cdc (reqExtension request)
      in if err \<noteq> None then Done ([TerminateWithError err], w)
         else
           (case msg of
              None \<Rightarrow> Done ([], w)
            | Some m \<Rightarrow>
                (case events (tr w) of
                   None \<Rightarrow> Panic
                 | Some ev \<Rightarrow>
                     (let (chid, responseMessage, err, w1) =
                            (case m of
                               Request req \<Rightarrow>
                                 (let chid = \<lparr>Initiator = p, ID = TransferID m\<rparr>;
                                      ((rm, e), w') =
                                        invoke (\<lambda>h. OnRequestReceived ev h chid req)
                                          (EvRequestReceived chid req) w
                                  in (chid, map_option Response rm, e, w'))
                             | Response resp \<Rightarrow>
                                 (let chid = \<lparr>Initiator = peerID (tr w), ID = TransferID m\<rparr>;
                                      (e, w') =
                                        invoke (\<lambda>h. OnResponseReceived ev h chid resp)
                                          (EvResponseReceived chid resp) w
                                  in (chid, None, e, w')))
                      in (case (case responseMessage of
                                  None \<Rightarrow> Inr []
                                | Some rm \<Rightarrow>
                                    (case ToExtensionData cdc rm of
                                       Inl extensionErr \<Rightarrow> Inl extensionErr
                                     | Inr ext \<Rightarrow> Inr [SendExtensionData ext])) of
                            Inl extensionErr \<Rightarrow> Done ([TerminateWithError err], w1)
                          | Inr acts1 \<Rightarrow>
                              if err \<noteq> None \<and> err \<noteq> Some ErrPause
                              then Done (acts1 @ [TerminateWithError err], w1)
                              else
                                (let acts2 = acts1 @ (if err = Some ErrPause then [ActPauseResponse] else []);
                                     t1 = tr w1;
                                     gsKey = \<lparr>requestID = reqID request, keyPeer = p\<rparr>;
                                     (acts3, t2) =
                                       (if requestorCancelledMap t1 chid \<noteq> None
                                        then (acts2 @ map SendExtensionData
                                                        (case pendingExtensions t1 chid of
                                                           None \<Rightarrow> []
                                                         | Some extensions \<Rightarrow> extensions),
                                              t1\<lparr>requestorCancelledMap :=
                                                    (requestorCancelledMap t1)(chid := None),
                                                  pendingExtensions :=
                                                    (pendingExtensions t1)(chid := None)\<rparr>)
                                        else (acts2, t1));
                                     t3 = t2\<lparr>graphsyncRequestMap := (graphsyncRequestMap t2)(gsKey \<mapsto> chid),
                                             channelIDMap := (channelIDMap t2)(chid \<mapsto> gsKey)\<rparr>;
                                     t4 = t3\<lparr>responseProgressMap :=
                                               (responseProgressMap t3)
                                                 (chid \<mapsto>
                                                    (case responseProgressMap t3 chid of
                                                       Some existing \<Rightarrow> existing\<lparr>currentSent := 0\<rparr>
                                                     | None \<Rightarrow> \<lparr>currentSent = 0, maximumSent = 0\<rparr>))\<rparr>
                                 in Done (acts3 @ [ValidateRequest], w1\<lparr>tr := t4\<rparr>)))))))"

text \<open>\<^verbatim>\<open>gsCompletedResponseListener\<close>.\<close>

definition gsCompletedResponseListener ::
  "peer \<Rightarrow> RequestData \<Rightarrow> ResponseStatusCode \<Rightarrow> 'h World \<Rightarrow> 'h World run" where
  "gsCompletedResponseListener p request status w =
     (case graphsyncRequestMap (tr w) \<lparr>requestID = reqID request, keyPeer = p\<rparr> of
        None \<Rightarrow> Done w
      | Some chid \<Rightarrow>
          (case (if status \<noteq> RequestCancelled
                 then (case events (tr w) of
                         None \<Rightarrow> Panic
                       | Some ev \<Rightarrow>
                           (let success = (status = RequestCompletedFull)
                            in Done (snd (invoke (\<lambda>h. OnChannelCompleted ev h chid success)
                                            (EvChannelCompleted chid success) w))))
                 else Done w) of
             Panic \<Rightarrow> Panic
           | Done w1 \<Rightarrow>
               Done (w1\<lparr>tr := cleanupChannel chid \<lparr>requestID = reqID request, keyPeer = p\<rparr> (tr w1)\<rparr>)))"

text \<open>\<^verbatim>\<open>processExtension\<close>: the message for the other side and the error, both optional.\<close>

definition processExtension ::
  "codec \<Rightarrow> ChannelID \<Rightarrow> (string \<rightharpoonup> bytes) \<Rightarrow> peer \<Rightarrow> 'h World
     \<Rightarrow> ((DataTransferMessage option \<times> error option) \<times> 'h World) run" where
  "processExtension cdc chid gsMsg p w =
     (let (msg, err) = GetTransferData cdc gsMsg
      in if err \<noteq> None then Done ((None, err), w)
         else
           (case msg of
              None \<Rightarrow> Done ((None, None), w)
            | Some m \<Rightarrow>
                (case m of
                   Request dtRequest \<Rightarrow>
                     if chid \<noteq> \<lparr>Initiator = p, ID = TransferID m\<rparr>
                     then Done ((None, Some (ErrorNew ''received request on response channel'')), w)
                     else
                       (case events (tr w) of
                          None \<Rightarrow> Panic
                        | Some ev \<Rightarrow>
                            (let ((rm, e), w1) =
                                   invoke (\<lambda>h. OnRequestReceived ev h chid dtRequest)
                                     (EvRequestReceived chid dtRequest) w
                             in Done ((map_option Response rm, e), w1)))
                 | Response dtResponse \<Rightarrow>
                     if chid \<noteq> \<lparr>Initiator = peerID (tr w), ID = TransferID m\<rparr>
                     then Done ((None, Some (ErrorNew ''received response on request channel'')), w)
                     else
                       (case events (tr w) of
                          None \<Rightarrow> Panic
                        | Some ev \<Rightarrow>
                            (let (e, w1) =
                                   invoke (\<lambda>h. OnResponseReceived ev h chid dtResponse)
                                     (EvResponseReceived chid dtResponse) w
                             in Done ((None, e), w1))))))"

text \<open>
  The common tail of \<^verbatim>\<open>gsRequestUpdatedHook\<close> and \<^verbatim>\<open>gsIncomingResponseHook\<close>: encode
  the returned message and hand it to the hook's own sending action, then terminate on
  an error. When encoding fails both terminate with \<^verbatim>\<open>err\<close>, as the source does.
\<close>

definition replyActions ::
  "codec \<Rightarrow> (ExtensionData \<Rightarrow> hookAction) \<Rightarrow> DataTransferMessage option \<Rightarrow> error option
     \<Rightarrow> hookAction list" where
  "replyActions cdc send responseMessage err =
     (case (case responseMessage of
              None \<Rightarrow> Inr []
            | Some rm \<Rightarrow>
                (case ToExtensionData cdc rm of
                   Inl extensionErr \<Rightarrow> Inl extensionErr
                 | Inr ext \<Rightarrow> Inr [send ext])) of
        Inl extensionErr \<Rightarrow> [TerminateWithError err]
      | Inr acts \<Rightarrow> acts @ (if err \<noteq> None then [TerminateWithError err] else []))"

text \<open>\<^verbatim>\<open>gsRequestUpdatedHook\<close>.\<close>

definition gsRequestUpdatedHook ::
  "codec \<Rightarrow> peer \<Rightarrow> RequestData \<Rightarrow> RequestData \<Rightarrow> 'h World \<Rightarrow> (hookAction list \<times> 'h World) run" where
  "gsRequestUpdatedHook cdc p request update w =
     (case graphsyncRequestMap (tr w) \<lparr>requestID = reqID request, keyPeer = p\<rparr> of
        None \<Rightarrow> Done ([], w)
      | Some chid \<Rightarrow>
          (case processExtension cdc chid (reqExtension update) p w of
             Panic \<Rightarrow> Panic
           | Done ((responseMessage, err), w1) \<Rightarrow>
               Done (replyActions cdc SendExtensionData responseMessage err, w1)))"

text \<open>\<^verbatim>\<open>gsIncomingResponseHook\<close>.\<close>

definition gsIncomingResponseHook ::
  "codec \<Rightarrow> peer \<Rightarrow> ResponseData \<Rightarrow> 'h World \<Rightarrow> (hookAction list \<times> 'h World) run" where
  "gsIncomingResponseHook cdc p response w =
     (case graphsyncRequestMap (tr w)
             \<lparr>requestID = respRequestID response, keyPeer = peerID (tr w)\<rparr> of
        None \<Rightarrow> Done ([], w)
      | Some chid \<Rightarrow>
          (case processExtension cdc chid (respExtension response) p w of
             Panic \<Rightarrow> Panic
           | Done ((responseMessage, err), w1) \<Rightarrow>
               Done (replyActions cdc UpdateRequestWithExtensions responseMessage err, w1)))"

text \<open>\<^verbatim>\<open>gsRequestorCancelledListener\<close>.\<close>

definition gsRequestorCancelledListener :: "peer \<Rightarrow> RequestData \<Rightarrow> 'h World \<Rightarrow> 'h World" where
  "gsRequestorCancelledListener p request w =
     (case graphsyncRequestMap (tr w) \<lparr>requestID = reqID request, keyPeer = p\<rparr> of
        None \<Rightarrow> w
      | Some chid \<Rightarrow>
          w\<lparr>tr := (tr w)\<lparr>requestorCancelledMap := (requestorCancelledMap (tr w))(chid \<mapsto> ())\<rparr>\<rparr>)"

section \<open>The side-channel receiver\<close>

text \<open>
  \<^verbatim>\<open>receiver\<close> of package \<^verbatim>\<open>impl\<close>. Its manager is not among the sources: the
  receiver reaches the event handler (\<^verbatim>\<open>manager.OnRequestReceived\<close>,
  \<^verbatim>\<open>OnResponseReceived\<close>), the transport interface (\<^verbatim>\<open>manager.transport\<close>) and the
  side-channel network (\<^verbatim>\<open>manager.dataTransferNetwork\<close>) through it. They are methods
  on the manager's state \<open>'s\<close>; \<open>pauseable\<close> says whether the transport implements
  \<^verbatim>\<open>transport.PauseableTransport\<close> (the type assertion panics when it does not).
\<close>

record 's Manager =
  mgrPeerID :: peer
  mgrOnRequestReceived ::
    "'s \<Rightarrow> ChannelID \<Rightarrow> transferRequest \<Rightarrow> (transferResponse option \<times> error option) \<times> 's"
  mgrOnResponseReceived :: "'s \<Rightarrow> ChannelID \<Rightarrow> transferResponse \<Rightarrow> error option \<times> 's"
  pauseable :: bool
  trOpenChannel ::
    "'s \<Rightarrow> peer \<Rightarrow> ChannelID \<Rightarrow> Link \<Rightarrow> Node option \<Rightarrow> DataTransferMessage \<Rightarrow> error option \<times> 's"
  trCloseChannel :: "'s \<Rightarrow> ChannelID \<Rightarrow> error option \<times> 's"
  trPauseChannel :: "'s \<Rightarrow> ChannelID \<Rightarrow> error option \<times> 's"
  trResumeChannel :: "'s \<Rightarrow> DataTransferMessage option \<Rightarrow> ChannelID \<Rightarrow> error option \<times> 's"
  netSendMessage :: "'s \<Rightarrow> peer \<Rightarrow> DataTransferMessage \<Rightarrow> error option \<times> 's"

text \<open>The calls the receiver makes, in order.\<close>

datatype rcall =
    MgrOnRequestReceived ChannelID transferRequest
  | MgrOnResponseReceived ChannelID transferResponse
  | TrOpenChannel peer ChannelID Link "Node option" DataTransferMessage
  | TrCloseChannel ChannelID
  | TrPauseChannel ChannelID
  | TrResumeChannel "DataTransferMessage option" ChannelID
  | NetSendMessage peer DataTransferMessage

record 's RWorld =
  ms :: "'s"
  rcalls :: "rcall list"

definition rinvoke :: "('s \<Rightarrow> 'r \<times> 's) \<Rightarrow> rcall \<Rightarrow> 's RWorld \<Rightarrow> 'r \<times> 's RWorld" where
  "rinvoke m c w =
     (let (r, s') = m (ms w) in (r, w\<lparr>ms := s', rcalls := rcalls w @ [c]\<rparr>))"

text \<open>
  \<^verbatim>\<open>receiver.receiveRequest\<close>. The selector's decoding error is dropped
  (\<^verbatim>\<open>stor, _ := incoming.Selector()\<close>), leaving the \<^verbatim>\<open>nil\<close> node.
\<close>

definition receiveRequest ::
  "codec \<Rightarrow> 's Manager \<Rightarrow> peer \<Rightarrow> transferRequest \<Rightarrow> 's RWorld \<Rightarrow> (error option \<times> 's RWorld) run" where
  "receiveRequest cdc manager initiator incoming w =
     (let chid = \<lparr>Initiator = initiator, ID = TransferID (Request incoming)\<rparr>;
          ((response, receiveErr), w1) =
            rinvoke (\<lambda>s. mgrOnRequestReceived manager s chid incoming)
              (MgrOnRequestReceived chid incoming) w
      in if receiveErr = Some ErrResume
         then (if pauseable manager
               then Done (rinvoke (\<lambda>s. trResumeChannel manager s (map_option Response response) chid)
                            (TrResumeChannel (map_option Response response) chid) w1)
               else Panic)
         else
           (let (sendErr, w2) =
                  (case response of
                     None \<Rightarrow> (None, w1)
                   | Some resp \<Rightarrow>
                       if \<not> IsUpdate resp \<and> Accepted resp \<and> \<not> IsPull incoming
                       then (let stor = (case Selector cdc incoming of
                                           Inl e \<Rightarrow> None
                                         | Inr n \<Rightarrow> Some n)
                             in rinvoke (\<lambda>s. trOpenChannel manager s initiator chid
                                               (BaseCid incoming) stor (Response resp))
                                  (TrOpenChannel initiator chid (BaseCid incoming) stor (Response resp))
                                  w1)
                       else rinvoke (\<lambda>s. netSendMessage manager s initiator (Response resp))
                              (NetSendMessage initiator (Response resp)) w1)
            in if sendErr \<noteq> None then Done (sendErr, w2)
               else if receiveErr = Some ErrPause
               then (if pauseable manager
                     then Done (rinvoke (\<lambda>s. trPauseChannel manager s chid) (TrPauseChannel chid) w2)
                     else Panic)
               else if receiveErr \<noteq> None
               then Done (receiveErr,
                          snd (rinvoke (\<lambda>s. trCloseChannel manager s chid) (TrCloseChannel chid) w2))
               else Done (None, w2)))"

text \<open>\<^verbatim>\<open>receiver.receiveResponse\<close>.\<close>

definition receiveResponse ::
  "'s Manager \<Rightarrow> peer \<Rightarrow> transferResponse \<Rightarrow> 's RWorld \<Rightarrow> (error option \<times> 's RWorld) run" where
  "receiveResponse manager sender incoming w =
     (let chid = \<lparr>Initiator = mgrPeerID manager, ID = TransferID (Response incoming)\<rparr>;
          (err, w1) =
            rinvoke (\<lambda>s. mgrOnResponseReceived manager s chid incoming)
              (MgrOnResponseReceived chid incoming) w
      in if err = Some ErrResume
         then (if pauseable manager
               then Done (rinvoke (\<lambda>s. trResumeChannel manager s None chid)
                            (TrResumeChannel None chid) w1)
               else Panic)
         else if err = Some ErrPause
         then (if pauseable manager
               then Done (rinvoke (\<lambda>s. trPauseChannel manager s chid) (TrPauseChannel chid) w1)
               else Panic)
         else if err \<noteq> None
         then Done (err, snd (rinvoke (\<lambda>s. trCloseChannel manager s chid) (TrCloseChannel chid) w1))
         else Done (None, w1))"

section \<open>Runs of the system\<close>

text \<open>
  The block transport may call the outgoing-block hook for one request any number of
  times: \<open>outgoingBlocks\<close> calls it once per block of a list, in order.
\<close>

fun outgoingBlocks ::
  "codec \<Rightarrow> peer \<Rightarrow> RequestData \<Rightarrow> BlockData list \<Rightarrow> 'h World \<Rightarrow> 'h World run" where
  "outgoingBlocks cdc p request [] w = Done w"
| "outgoingBlocks cdc p request (block # blocks) w =
     (case gsOutgoingBlockHook cdc p request block w of
        Panic \<Rightarrow> Panic
      | Done (acts, w1) \<Rightarrow> outgoingBlocks cdc p request blocks w1)"

text \<open>
  The states of a run: it starts from \<^verbatim>\<open>NewTransport\<close>; clients call the exposed
  operations, the block transport calls the hooks and listeners, in any order and with
  any arguments, and the collaborators may change their own state in between. A call
  that panics has no successor state.
\<close>

inductive reachable :: "codec \<Rightarrow> 'h World \<Rightarrow> bool" for cdc :: codec where
  newTransport: "tr w = NewTransport pid g \<Longrightarrow> reachable cdc w"
| collaborators: "reachable cdc w \<Longrightarrow> reachable cdc (w\<lparr>hs := h\<rparr>)"
| setEventHandler:
    "reachable cdc w \<Longrightarrow> SetEventHandler evs w = (r, w') \<Longrightarrow> reachable cdc w'"
| openChannel:
    "reachable cdc w \<Longrightarrow> OpenChannel cdc dataSender chid root stor msg w = (r, w')
       \<Longrightarrow> reachable cdc w'"
| requestExecuted:
    "reachable cdc w \<Longrightarrow> executeGsRequest chid lastError w = Done w' \<Longrightarrow> reachable cdc w'"
| pauseChannel:
    "reachable cdc w \<Longrightarrow> PauseChannel ctxDone chid w = (res, w') \<Longrightarrow> reachable cdc w'"
| resumeChannel:
    "reachable cdc w \<Longrightarrow> ResumeChannel cdc ctxDone omsg chid w = (res, w') \<Longrightarrow> reachable cdc w'"
| closeChannel:
    "reachable cdc w \<Longrightarrow> CloseChannel ctxDone chid w = (res, w') \<Longrightarrow> reachable cdc w'"
| cleanupChannel:
    "reachable cdc w \<Longrightarrow> reachable cdc (CleanupChannel chid w)"
| outgoingRequestHook:
    "reachable cdc w \<Longrightarrow> gsOutgoingRequestHook cdc p request w = Done (acts, w')
       \<Longrightarrow> reachable cdc w'"
| incomingBlockHook:
    "reachable cdc w \<Longrightarrow> gsIncomingBlockHook p response block w = Done (acts, w')
       \<Longrightarrow> reachable cdc w'"
| outgoingBlockHook:
    "reachable cdc w \<Longrightarrow> gsOutgoingBlockHook cdc p request block w = Done (acts, w')
       \<Longrightarrow> reachable cdc w'"
| incomingRequestHook:
    "reachable cdc w \<Longrightarrow> gsReqRecdHook cdc p request w = Done (acts, w') \<Longrightarrow> reachable cdc w'"
| completedResponseListener:
    "reachable cdc w \<Longrightarrow> gsCompletedResponseListener p request status w = Done w'
       \<Longrightarrow> reachable cdc w'"
| requestUpdatedHook:
    "reachable cdc w \<Longrightarrow> gsRequestUpdatedHook cdc p request update w = Done (acts, w')
       \<Longrightarrow> reachable cdc w'"
| incomingResponseHook:
    "reachable cdc w \<Longrightarrow> gsIncomingResponseHook cdc p response w = Done (acts, w')
       \<Longrightarrow> reachable cdc w'"
| requestorCancelledListener:
    "reachable cdc w \<Longrightarrow> reachable cdc (gsRequestorCancelledListener p request w)"

text \<open>Every block-progress record has its current count at or below its maximum.\<close>

definition progressOrdered :: "'h Transport \<Rightarrow> bool" where
  "progressOrdered t \<longleftrightarrow>
     (\<forall>chid rp. responseProgressMap t chid = Some rp \<longrightarrow> currentSent rp \<le> maximumSent rp)"

section \<open>Test doubles\<close>

text \<open>
  Concrete collaborators in the manner of the repository's test harness
  (\<^verbatim>\<open>fakeEvents\<close>, \<^verbatim>\<open>FakeGraphSync\<close>): an event handler that returns canned values, a
  block transport whose calls all succeed, both counting the calls they receive, and a
  two-byte codec (a tag and the low byte of the transfer id).
\<close>

record fakeReturns =
  OnChannelOpenedError :: "error option"
  OnDataReceivedError :: "error option"
  OnDataSentError :: "error option"
  DataSentMessage :: "DataTransferMessage option"
  OnRequestReceivedError :: "error option"
  RequestReceivedResponse :: "transferResponse option"
  OnResponseReceivedError :: "error option"
  OnChannelCompletedErr :: "error option"

definition noReturns :: fakeReturns where
  "noReturns =
     \<lparr>OnChannelOpenedError = None, OnDataReceivedError = None, OnDataSentError = None,
      DataSentMessage = None, OnRequestReceivedError = None, RequestReceivedResponse = None,
      OnResponseReceivedError = None, OnChannelCompletedErr = None\<rparr>"

definition fakeEvents :: "fakeReturns \<Rightarrow> nat Events" where
  "fakeEvents fe =
     \<lparr>OnChannelOpened = (\<lambda>h chid. (OnChannelOpenedError fe, Suc h)),
      OnDataReceived = (\<lambda>h chid link size. (OnDataReceivedError fe, Suc h)),
      OnDataSent = (\<lambda>h chid link size. ((DataSentMessage fe, OnDataSentError fe), Suc h)),
      OnRequestReceived =
        (\<lambda>h chid request. ((RequestReceivedResponse fe, OnRequestReceivedError fe), Suc h)),
      OnResponseReceived = (\<lambda>h chid response. (OnResponseReceivedError fe, Suc h)),
      OnChannelCompleted = (\<lambda>h chid success. (OnChannelCompletedErr fe, Suc h))\<rparr>"

definition fakeGraphSync :: "nat GraphExchange" where
  "fakeGraphSync =
     \<lparr>gsRequest = (\<lambda>h p root stor ext. Suc h),
      PauseRequest = (\<lambda>h rid. (None, Suc h)),
      UnpauseRequest = (\<lambda>h rid exts. (None, Suc h)),
      PauseResponse = (\<lambda>h p rid. (None, Suc h)),
      UnpauseResponse = (\<lambda>h p rid exts. (None, Suc h)),
      CancelResponse = (\<lambda>h p rid. (None, Suc h))\<rparr>"

definition testRequest :: "TransferID \<Rightarrow> transferRequest" where
  "testRequest tid =
     \<lparr>ReqBCid = ''cid'', ReqStor = [], ReqVouch = [], ReqVTyp = ''voucher'',
      ReqPart = False, ReqPull = False, ReqXferID = tid\<rparr>"

definition testResponse :: "TransferID \<Rightarrow> transferResponse" where
  "testResponse tid =
     \<lparr>Acpt = True, Updt = False, XferID = tid, VRes = None, VTyp = ''result''\<rparr>"

definition testCodec :: codec where
  "testCodec =
     \<lparr>ToNet = (\<lambda>msg. Inr [if IsRequest msg then 0 else 1, ucast (TransferID msg)]),
      FromNet =
        (\<lambda>data. case data of
                   [tag, n] \<Rightarrow>
                     if tag = 0 then Inr (Request (testRequest (ucast n)))
                     else if tag = 1 then Inr (Response (testResponse (ucast n)))
                     else Inl (ErrorNew ''malformed'')
                 | _ \<Rightarrow> Inl (ErrorNew ''malformed'')),
      Selector = (\<lambda>trq. Inr ''selector'')\<rparr>"

text \<open>A graphsync request carrying the given bytes as its data-transfer extension.\<close>

definition fakeRequest :: "RequestID \<Rightarrow> bytes option \<Rightarrow> RequestData" where
  "fakeRequest rid ext =
     \<lparr>reqID = rid, reqExtension = (\<lambda>name. if name = ExtensionDataTransfer then ext else None)\<rparr>"

definition fakeResponseData :: "RequestID \<Rightarrow> bytes option \<Rightarrow> ResponseStatusCode \<Rightarrow> ResponseData" where
  "fakeResponseData rid ext status =
     \<lparr>respRequestID = rid,
      respExtension = (\<lambda>name. if name = ExtensionDataTransfer then ext else None),
      respStatus = status\<rparr>"

text \<open>
  Peer \<open>''A''\<close> is the local peer and \<open>''B''\<close> the other one. \<open>fresh\<close> is the state
  after \<^verbatim>\<open>NewTransport\<close>, \<open>started fe\<close> the state after \<^verbatim>\<open>SetEventHandler\<close>.
\<close>

definition fresh :: "nat World" where
  "fresh = \<lparr>tr = NewTransport ''A'' fakeGraphSync, hs = 0, effects = []\<rparr>"

definition started :: "fakeReturns \<Rightarrow> nat World" where
  "started fe = snd (SetEventHandler (fakeEvents fe) fresh)"

definition fakeManager ::
  "transferResponse option \<times> error option \<Rightarrow> error option \<Rightarrow> nat Manager" where
  "fakeManager handlerResult sendResult =
     \<lparr>mgrPeerID = ''A'',
      mgrOnRequestReceived = (\<lambda>s chid request. (handlerResult, Suc s)),
      mgrOnResponseReceived = (\<lambda>s chid response. (None, Suc s)),
      pauseable = True,
      trOpenChannel = (\<lambda>s p chid root stor msg. (sendResult, Suc s)),
      trCloseChannel = (\<lambda>s chid. (None, Suc s)),
      trPauseChannel = (\<lambda>s chid. (None, Suc s)),
      trResumeChannel = (\<lambda>s msg chid. (None, Suc s)),
      netSendMessage = (\<lambda>s p msg. (sendResult, Suc s))\<rparr>"

definition testBlock :: BlockData where
  "testBlock = \<lparr>blockLink = ''link'', BlockSize = 100\<rparr>"

text \<open>The state a hook leaves (the state it started from, should it panic).\<close>

definition stateAfter :: "('a \<times> 'h World) run \<Rightarrow> 'h World \<Rightarrow> 'h World" where
  "stateAfter r w = (case r of Done (x, w') \<Rightarrow> w' | Panic \<Rightarrow> w)"

text \<open>
  Scenario states. \<open>serving fe\<close>: peer \<open>''B''\<close> has sent graphsync request 1 carrying
  the data-transfer request 7 (a pull), and the incoming-request hook has run.
  \<open>cancelled\<close>: then the requestor-cancelled listener has fired for that request.
  \<open>restarted\<close>: instead, one block of size 100 has gone out and the same graphsync
  request has come in again. \<open>opened fe\<close>: the local peer has called \<^verbatim>\<open>OpenChannel\<close>
  for its own transfer 7 towards \<open>''B''\<close>, and the outgoing-request hook has not run yet.
\<close>

definition serving :: "fakeReturns \<Rightarrow> nat World" where
  "serving fe =
     stateAfter (gsReqRecdHook testCodec ''B'' (fakeRequest 1 (Some [0, 7])) (started fe))
       (started fe)"

definition cancelled :: "nat World" where
  "cancelled = gsRequestorCancelledListener ''B'' (fakeRequest 1 (Some [0, 7])) (serving noReturns)"

definition sentOne :: "nat World" where
  "sentOne =
     stateAfter (gsOutgoingBlockHook testCodec ''B'' (fakeRequest 1 (Some [0, 7])) testBlock
                   (serving noReturns))
       (serving noReturns)"

definition restarted :: "nat World" where
  "restarted =
     stateAfter (gsReqRecdHook testCodec ''B'' (fakeRequest 1 (Some [0, 7])) sentOne) sentOne"

definition opened :: "fakeReturns \<Rightarrow> nat World" where
  "opened fe =
     snd (OpenChannel testCodec ''B'' \<lparr>Initiator = ''A'', ID = 7\<rparr> ''root'' (Some ''selector'')
            (Request (testRequest 7)) (started fe))"

section \<open>Auxiliary facts\<close>

lemma invoke_eq:
  "invoke m e w = (fst (m (hs w)), w\<lparr>hs := snd (m (hs w)), effects := effects w @ [e]\<rparr>)"
  by (simp add: invoke_def split: prod.splits)

lemma rinvoke_eq:
  "rinvoke m c w = (fst (m (ms w)), w\<lparr>ms := snd (m (ms w)), rcalls := rcalls w @ [c]\<rparr>)"
  by (simp add: rinvoke_def split: prod.splits)

lemmas fixture_defs =
  started_def fresh_def NewTransport_def SetEventHandler_def fakeEvents_def fakeGraphSync_def
  testCodec_def testRequest_def testResponse_def fakeRequest_def fakeResponseData_def
  noReturns_def ExtensionDataTransfer_def GetTransferData_def ToExtensionData_def
  stateAfter_def testBlock_def

subsection \<open>The scenario states, written out\<close>

lemma fresh_events: "events (tr fresh) = None"
  by (simp add: fresh_def NewTransport_def)

lemma started_eq:
  "started fe =
     \<lparr>tr = (NewTransport ''A'' fakeGraphSync)\<lparr>events := Some (fakeEvents fe)\<rparr>,
      hs = 0, effects = []\<rparr>"
  by (simp add: started_def fresh_def SetEventHandler_def NewTransport_def)

lemma serving_eq:
  "serving noReturns =
     \<lparr>tr = (NewTransport ''A'' fakeGraphSync)
             \<lparr>events := Some (fakeEvents noReturns),
              graphsyncRequestMap := [\<lparr>requestID = 1, keyPeer = ''B''\<rparr> \<mapsto> \<lparr>Initiator = ''B'', ID = 7\<rparr>],
              channelIDMap := [\<lparr>Initiator = ''B'', ID = 7\<rparr> \<mapsto> \<lparr>requestID = 1, keyPeer = ''B''\<rparr>],
              responseProgressMap :=
                [\<lparr>Initiator = ''B'', ID = 7\<rparr> \<mapsto> \<lparr>currentSent = 0, maximumSent = 0\<rparr>]\<rparr>,
      hs = 1,
      effects = [EvRequestReceived \<lparr>Initiator = ''B'', ID = 7\<rparr> (testRequest 7)]\<rparr>"
  by (simp add: serving_def gsReqRecdHook_def invoke_eq fixture_defs Let_def)

lemma cancelled_eq:
  "cancelled =
     (serving noReturns)
       \<lparr>tr := (tr (serving noReturns))
                \<lparr>requestorCancelledMap := [\<lparr>Initiator = ''B'', ID = 7\<rparr> \<mapsto> ()]\<rparr>\<rparr>"
  unfolding cancelled_def serving_eq
  by (simp add: gsRequestorCancelledListener_def fakeRequest_def NewTransport_def)

lemma sentOne_eq:
  "sentOne =
     (serving noReturns)
       \<lparr>tr := (tr (serving noReturns))
                \<lparr>responseProgressMap :=
                   [\<lparr>Initiator = ''B'', ID = 7\<rparr> \<mapsto> \<lparr>currentSent = 100, maximumSent = 100\<rparr>]\<rparr>,
        hs := 2,
        effects := [EvRequestReceived \<lparr>Initiator = ''B'', ID = 7\<rparr> (testRequest 7),
                    EvDataSent \<lparr>Initiator = ''B'', ID = 7\<rparr> ''link'' 100]\<rparr>"
  unfolding sentOne_def serving_eq
  by (simp add: gsOutgoingBlockHook_def invoke_eq fixture_defs Let_def)

lemma restarted_eq:
  "restarted =
     sentOne
       \<lparr>tr := (tr sentOne)
                \<lparr>responseProgressMap :=
                   [\<lparr>Initiator = ''B'', ID = 7\<rparr> \<mapsto> \<lparr>currentSent = 0, maximumSent = 100\<rparr>]\<rparr>,
        hs := 3,
        effects := [EvRequestReceived \<lparr>Initiator = ''B'', ID = 7\<rparr> (testRequest 7),
                    EvDataSent \<lparr>Initiator = ''B'', ID = 7\<rparr> ''link'' 100,
                    EvRequestReceived \<lparr>Initiator = ''B'', ID = 7\<rparr> (testRequest 7)]\<rparr>"
  unfolding restarted_def sentOne_eq serving_eq
  by (simp add: gsReqRecdHook_def invoke_eq fixture_defs Let_def)

lemma opened_eq:
  "opened fe =
     \<lparr>tr = (NewTransport ''A'' fakeGraphSync)
             \<lparr>events := Some (fakeEvents fe),
              contextCancelMap := [\<lparr>Initiator = ''A'', ID = 7\<rparr> \<mapsto> ()],
              pending := [\<lparr>Initiator = ''A'', ID = 7\<rparr> \<mapsto> ()]\<rparr>,
      hs = 1,
      effects = [GsRequest ''B'' ''root'' (Some ''selector'')
                   \<lparr>Name = ''fil/data-transfer'', Data = [0, 7]\<rparr>]\<rparr>"
  by (simp add: opened_def OpenChannel_def started_eq fixture_defs Let_def)

lemma decode_request: "GetTransferData testCodec (reqExtension (fakeRequest rid (Some [0, n])))
    = (Some (Request (testRequest (ucast n))), None)"
  by (simp add: fixture_defs)

lemma decode_response: "GetTransferData testCodec (reqExtension (fakeRequest rid (Some [1, n])))
    = (Some (Response (testResponse (ucast n))), None)"
  by (simp add: fixture_defs)

subsection \<open>The hooks, case by case\<close>

lemma gsReqRecdHook_request_effects:
  assumes "GetTransferData cdc (reqExtension request) = (Some (Request r), None)"
      and "events (tr w) = Some ev"
  shows "\<exists>acts w'. gsReqRecdHook cdc p request w = Done (acts, w')
           \<and> effects w' = effects w @ [EvRequestReceived \<lparr>Initiator = p, ID = ReqXferID r\<rparr> r]
           \<and> (ValidateRequest \<in> set acts \<longrightarrow>
                graphsyncRequestMap (tr w') \<lparr>requestID = reqID request, keyPeer = p\<rparr>
                  = Some \<lparr>Initiator = p, ID = ReqXferID r\<rparr>
              \<and> channelIDMap (tr w') \<lparr>Initiator = p, ID = ReqXferID r\<rparr>
                  = Some \<lparr>requestID = reqID request, keyPeer = p\<rparr>)"
  using assms
  by (simp add: gsReqRecdHook_def invoke_eq Let_def
           split: prod.splits option.splits sum.splits)

lemma gsReqRecdHook_response_effects:
  assumes "GetTransferData cdc (reqExtension request) = (Some (Response r), None)"
      and "events (tr w) = Some ev"
  shows "\<exists>acts w'. gsReqRecdHook cdc p request w = Done (acts, w')
           \<and> effects w' = effects w @ [EvResponseReceived \<lparr>Initiator = peerID (tr w), ID = XferID r\<rparr> r]
           \<and> (ValidateRequest \<in> set acts \<longrightarrow>
                graphsyncRequestMap (tr w') \<lparr>requestID = reqID request, keyPeer = p\<rparr>
                  = Some \<lparr>Initiator = peerID (tr w), ID = XferID r\<rparr>
              \<and> channelIDMap (tr w') \<lparr>Initiator = peerID (tr w), ID = XferID r\<rparr>
                  = Some \<lparr>requestID = reqID request, keyPeer = p\<rparr>)"
  using assms
  by (simp add: gsReqRecdHook_def invoke_eq Let_def
           split: prod.splits option.splits sum.splits)

lemma gsOutgoingRequestHook_effects:
  assumes "GetTransferData cdc (reqExtension request) = (Some m, None)"
      and "events (tr w) = Some ev"
      and "chid = \<lparr>Initiator = (if IsRequest m then peerID (tr w) else p), ID = TransferID m\<rparr>"
  shows "\<exists>w'. gsOutgoingRequestHook cdc p request w = Done ([], w')
           \<and> effects w' = effects w @ EvChannelOpened chid
                             # (if pending (tr w) chid = None then [] else [ClosePending chid])"
  using assms
  by (cases "pending (tr w) chid")
     (simp_all add: gsOutgoingRequestHook_def invoke_eq Let_def)

lemma processExtension_request_mismatch:
  assumes "GetTransferData cdc gsMsg = (Some (Request r), None)"
      and "chid \<noteq> \<lparr>Initiator = p, ID = ReqXferID r\<rparr>"
  shows "processExtension cdc chid gsMsg p w
           = Done ((None, Some (ErrorNew ''received request on response channel'')), w)"
  using assms by (simp add: processExtension_def)

lemma processExtension_response_mismatch:
  assumes "GetTransferData cdc gsMsg = (Some (Response r), None)"
      and "chid \<noteq> \<lparr>Initiator = peerID (tr w), ID = XferID r\<rparr>"
  shows "processExtension cdc chid gsMsg p w
           = Done ((None, Some (ErrorNew ''received response on request channel'')), w)"
  using assms by (simp add: processExtension_def)

lemma processExtension_request_match:
  assumes "GetTransferData cdc gsMsg = (Some (Request r), None)"
      and "chid = \<lparr>Initiator = p, ID = ReqXferID r\<rparr>"
      and "events (tr w) = Some ev"
  shows "processExtension cdc chid gsMsg p w
           = Done ((map_option Response (fst (fst (OnRequestReceived ev (hs w) chid r))),
                    snd (fst (OnRequestReceived ev (hs w) chid r))),
                   w\<lparr>hs := snd (OnRequestReceived ev (hs w) chid r),
                     effects := effects w @ [EvRequestReceived chid r]\<rparr>)"
  using assms by (simp add: processExtension_def invoke_eq split: prod.splits)

lemma processExtension_response_match:
  assumes "GetTransferData cdc gsMsg = (Some (Response r), None)"
      and "chid = \<lparr>Initiator = peerID (tr w), ID = XferID r\<rparr>"
      and "events (tr w) = Some ev"
  shows "processExtension cdc chid gsMsg p w
           = Done ((None, fst (OnResponseReceived ev (hs w) chid r)),
                   w\<lparr>hs := snd (OnResponseReceived ev (hs w) chid r),
                     effects := effects w @ [EvResponseReceived chid r]\<rparr>)"
  using assms by (simp add: processExtension_def invoke_eq split: prod.splits)

lemma outgoing_block_quiet:
  assumes "graphsyncRequestMap (tr w) \<lparr>requestID = reqID request, keyPeer = p\<rparr> = Some chid"
      and "responseProgressMap (tr w) chid = Some rp"
      and "currentSent rp + BlockSize block \<le> maximumSent rp"
  shows "gsOutgoingBlockHook cdc p request block w
           = Done ([], w\<lparr>tr := (tr w)\<lparr>responseProgressMap :=
                                      (responseProgressMap (tr w))
                                        (chid \<mapsto> rp\<lparr>currentSent := currentSent rp + BlockSize block\<rparr>)\<rparr>\<rparr>)"
  using assms by (simp add: gsOutgoingBlockHook_def Let_def)

lemma outgoing_block_raises:
  assumes "graphsyncRequestMap (tr w) \<lparr>requestID = reqID request, keyPeer = p\<rparr> = Some chid"
      and "responseProgressMap (tr w) chid = Some rp"
      and "events (tr w) = Some ev"
      and "\<not> currentSent rp + BlockSize block \<le> maximumSent rp"
  shows "\<exists>acts. gsOutgoingBlockHook cdc p request block w
           = Done (acts,
               w\<lparr>tr := (tr w)\<lparr>responseProgressMap :=
                                (responseProgressMap (tr w))
                                  (chid \<mapsto> rp\<lparr>currentSent := currentSent rp + BlockSize block,
                                              maximumSent := currentSent rp + BlockSize block\<rparr>)\<rparr>,
                 hs := snd (OnDataSent ev (hs w) chid (blockLink block) (BlockSize block)),
                 effects := effects w @ [EvDataSent chid (blockLink block) (BlockSize block)]\<rparr>)"
  using assms
  by (simp add: gsOutgoingBlockHook_def invoke_eq Let_def split: prod.splits option.splits sum.splits)

text \<open>
  Blocks replayed below the maximum: while the running count stays at or below
  \<open>maximumSent\<close>, the hook only advances \<open>currentSent\<close>.
\<close>

lemma outgoing_blocks_replay:
  assumes "graphsyncRequestMap (tr w) \<lparr>requestID = reqID request, keyPeer = p\<rparr> = Some chid"
      and "responseProgressMap (tr w) chid = Some rp"
      and "unat (currentSent rp) + sum_list (map (\<lambda>b. unat (BlockSize b)) blocks)
             \<le> unat (maximumSent rp)"
  shows "\<exists>w'. outgoingBlocks cdc p request blocks w = Done w'
           \<and> effects w' = effects w \<and> hs w' = hs w
           \<and> graphsyncRequestMap (tr w') = graphsyncRequestMap (tr w)
           \<and> responseProgressMap (tr w') chid
               = Some (rp\<lparr>currentSent := currentSent rp + sum_list (map BlockSize blocks)\<rparr>)"
  using assms
proof (induction blocks arbitrary: w rp)
  case Nil
  then show ?case by simp
next
  case (Cons b bs)
  let ?c = "currentSent rp + BlockSize b"
  have bound: "unat (currentSent rp) + unat (BlockSize b) \<le> unat (maximumSent rp)"
    using Cons.prems(3) by simp
  have "unat (maximumSent rp) < 2 ^ 64"
    using unsigned_less [of "maximumSent rp"] by simp
  with bound have noflow: "unat ?c = unat (currentSent rp) + unat (BlockSize b)"
    by (simp add: unat_add_lem [THEN iffD1])
  with bound have le: "?c \<le> maximumSent rp"
    by (simp add: word_le_nat_alt)
  let ?rp1 = "rp\<lparr>currentSent := ?c\<rparr>"
  let ?w1 = "w\<lparr>tr := (tr w)\<lparr>responseProgressMap := (responseProgressMap (tr w))(chid \<mapsto> ?rp1)\<rparr>\<rparr>"
  have step: "gsOutgoingBlockHook cdc p request b w = Done ([], ?w1)"
    using outgoing_block_quiet [OF Cons.prems(1) Cons.prems(2) le] .
  have a: "graphsyncRequestMap (tr ?w1) \<lparr>requestID = reqID request, keyPeer = p\<rparr> = Some chid"
    using Cons.prems(1) by simp
  have b: "responseProgressMap (tr ?w1) chid = Some ?rp1"
    by simp
  have c: "unat (currentSent ?rp1) + sum_list (map (\<lambda>b. unat (BlockSize b)) bs)
             \<le> unat (maximumSent ?rp1)"
    using Cons.prems(3) noflow by simp
  from Cons.IH [OF a b c] obtain w' where
    w': "outgoingBlocks cdc p request bs ?w1 = Done w'"
        "effects w' = effects ?w1" "hs w' = hs ?w1"
        "graphsyncRequestMap (tr w') = graphsyncRequestMap (tr ?w1)"
        "responseProgressMap (tr w') chid
           = Some (?rp1\<lparr>currentSent := currentSent ?rp1 + sum_list (map BlockSize bs)\<rparr>)"
    by blast
  show ?case
    using step w' by (simp add: add.assoc)
qed

subsection \<open>The order of the watermarks is kept by every step\<close>

lemma progressOrdered_same:
  "progressOrdered t \<Longrightarrow> responseProgressMap t' = responseProgressMap t \<Longrightarrow> progressOrdered t'"
  by (simp add: progressOrdered_def)

lemma progressOrdered_cleanup: "progressOrdered t \<Longrightarrow> progressOrdered (cleanupChannel chid gsKey t)"
  by (simp add: progressOrdered_def cleanupChannel_def)

lemma SetEventHandler_progress:
  "SetEventHandler evs w = (r, w') \<Longrightarrow> responseProgressMap (tr w') = responseProgressMap (tr w)"
  by (auto simp add: SetEventHandler_def split: option.splits)

lemma OpenChannel_progress:
  "OpenChannel cdc dataSender chid root stor msg w = (r, w')
     \<Longrightarrow> responseProgressMap (tr w') = responseProgressMap (tr w)"
  by (auto simp add: OpenChannel_def Let_def split: option.splits sum.splits)

lemma executeGsRequest_progress:
  "executeGsRequest chid lastError w = Done w'
     \<Longrightarrow> responseProgressMap (tr w') = responseProgressMap (tr w)"
  by (auto simp add: executeGsRequest_def invoke_eq Let_def split: option.splits if_splits run.splits)

lemma PauseChannel_progress:
  "PauseChannel ctxDone chid w = (res, w')
     \<Longrightarrow> responseProgressMap (tr w') = responseProgressMap (tr w)"
  by (auto simp add: PauseChannel_def invoke_eq Let_def split: option.splits sum.splits if_splits)

lemma ResumeChannel_progress:
  "ResumeChannel cdc ctxDone omsg chid w = (res, w')
     \<Longrightarrow> responseProgressMap (tr w') = responseProgressMap (tr w)"
  by (auto simp add: ResumeChannel_def invoke_eq Let_def split: option.splits sum.splits if_splits)

lemma CloseChannel_progress:
  "progressOrdered (tr w) \<Longrightarrow> CloseChannel ctxDone chid w = (res, w') \<Longrightarrow> progressOrdered (tr w')"
  by (auto simp add: CloseChannel_def invoke_eq Let_def progressOrdered_cleanup
           split: option.splits sum.splits if_splits)

lemma CleanupChannel_progress:
  "progressOrdered (tr w) \<Longrightarrow> progressOrdered (tr (CleanupChannel chid w))"
  by (auto simp add: CleanupChannel_def progressOrdered_cleanup split: option.splits)

lemma gsOutgoingRequestHook_progress:
  "gsOutgoingRequestHook cdc p request w = Done (acts, w')
     \<Longrightarrow> responseProgressMap (tr w') = responseProgressMap (tr w)"
  by (auto simp add: gsOutgoingRequestHook_def invoke_eq Let_def split: option.splits if_splits)

lemma gsIncomingBlockHook_progress:
  "gsIncomingBlockHook p response block w = Done (acts, w')
     \<Longrightarrow> responseProgressMap (tr w') = responseProgressMap (tr w)"
  by (auto simp add: gsIncomingBlockHook_def invoke_eq Let_def split: option.splits if_splits)

lemma gsOutgoingBlockHook_progress:
  "progressOrdered (tr w) \<Longrightarrow> gsOutgoingBlockHook cdc p request block w = Done (acts, w')
     \<Longrightarrow> progressOrdered (tr w')"
  by (auto simp add: gsOutgoingBlockHook_def invoke_eq Let_def progressOrdered_def
           split: option.splits if_splits prod.splits sum.splits)

lemma gsReqRecdHook_progress:
  "progressOrdered (tr w) \<Longrightarrow> gsReqRecdHook cdc p request w = Done (acts, w')
     \<Longrightarrow> progressOrdered (tr w')"
  by (auto simp add: gsReqRecdHook_def invoke_eq Let_def progressOrdered_def
           split: option.splits if_splits prod.splits sum.splits DataTransferMessage.splits)

lemma gsCompletedResponseListener_progress:
  "progressOrdered (tr w) \<Longrightarrow> gsCompletedResponseListener p request status w = Done w'
     \<Longrightarrow> progressOrdered (tr w')"
  by (auto simp add: gsCompletedResponseListener_def invoke_eq Let_def progressOrdered_cleanup
           split: option.splits if_splits run.splits)

lemma processExtension_progress:
  "processExtension cdc chid gsMsg p w = Done (res, w')
     \<Longrightarrow> responseProgressMap (tr w') = responseProgressMap (tr w)"
  by (auto simp add: processExtension_def invoke_eq Let_def
           split: option.splits if_splits prod.splits DataTransferMessage.splits)

lemma gsRequestUpdatedHook_progress:
  "gsRequestUpdatedHook cdc p request update w = Done (acts, w')
     \<Longrightarrow> responseProgressMap (tr w') = responseProgressMap (tr w)"
  by (auto simp add: gsRequestUpdatedHook_def split: option.splits run.splits
           dest: processExtension_progress)

lemma gsIncomingResponseHook_progress:
  "gsIncomingResponseHook cdc p response w = Done (acts, w')
     \<Longrightarrow> responseProgressMap (tr w') = responseProgressMap (tr w)"
  by (auto simp add: gsIncomingResponseHook_def split: option.splits run.splits
           dest: processExtension_progress)

lemma gsRequestorCancelledListener_progress:
  "responseProgressMap (tr (gsRequestorCancelledListener p request w)) = responseProgressMap (tr w)"
  by (simp add: gsRequestorCancelledListener_def split: option.splits)

lemma reachable_progressOrdered: "reachable cdc w \<Longrightarrow> progressOrdered (tr w)"
proof (induction rule: reachable.induct)
  case (newTransport w pid g)
  then show ?case by (simp add: progressOrdered_def NewTransport_def)
next
  case (collaborators w h)
  then show ?case by simp
next
  case (setEventHandler w evs r w')
  then show ?case by (blast intro: progressOrdered_same SetEventHandler_progress)
next
  case (openChannel w dataSender chid root stor msg r w')
  then show ?case by (blast intro: progressOrdered_same OpenChannel_progress)
next
  case (requestExecuted w chid lastError w')
  then show ?case by (blast intro: progressOrdered_same executeGsRequest_progress)
next
  case (pauseChannel w ctxDone chid res w')
  then show ?case by (blast intro: progressOrdered_same PauseChannel_progress)
next
  case (resumeChannel w ctxDone omsg chid res w')
  then show ?case by (blast intro: progressOrdered_same ResumeChannel_progress)
next
  case (closeChannel w ctxDone chid res w')
  then show ?case by (blast intro: CloseChannel_progress)
next
  case (cleanupChannel w chid)
  then show ?case by (blast intro: CleanupChannel_progress)
next
  case (outgoingRequestHook w p request acts w')
  then show ?case by (blast intro: progressOrdered_same gsOutgoingRequestHook_progress)
next
  case (incomingBlockHook w p response block acts w')
  then show ?case by (blast intro: progressOrdered_same gsIncomingBlockHook_progress)
next
  case (outgoingBlockHook w p request block acts w')
  then show ?case by (blast intro: gsOutgoingBlockHook_progress)
next
  case (incomingRequestHook w p request acts w')
  then show ?case by (blast intro: gsReqRecdHook_progress)
next
  case (completedResponseListener w p request status w')
  then show ?case by (blast intro: gsCompletedResponseListener_progress)
next
  case (requestUpdatedHook w p request update acts w')
  then show ?case by (blast intro: progressOrdered_same gsRequestUpdatedHook_progress)
next
  case (incomingResponseHook w p response acts w')
  then show ?case by (blast intro: progressOrdered_same gsIncomingResponseHook_progress)
next
  case (requestorCancelledListener w p request)
  then show ?case
    by (blast intro: progressOrdered_same gsRequestorCancelledListener_progress)
qed

lemma reachable_serving: "reachable testCodec (serving noReturns)"
proof -
  have r0: "reachable testCodec fresh"
    by (rule reachable.newTransport [of _ "''A''" fakeGraphSync]) (simp add: fresh_def)
  have "SetEventHandler (fakeEvents noReturns) fresh = (None, started noReturns)"
    by (simp add: started_def SetEventHandler_def fresh_events)
  from reachable.setEventHandler [OF r0 this]
  have r1: "reachable testCodec (started noReturns)" .
  have "gsReqRecdHook testCodec ''B'' (fakeRequest 1 (Some [0, 7])) (started noReturns)
          = Done ([ValidateRequest], serving noReturns)"
    unfolding serving_eq
    by (simp add: gsReqRecdHook_def invoke_eq fixture_defs Let_def)
  from reachable.incomingRequestHook [OF r1 this]
  show ?thesis .
qed

section \<open>The claims\<close>

text \<open>
  Claim C1, as amended. For a decoded data-transfer message from remote peer \<open>p\<close>,
  the incoming-request hook resolves the channel id with \<open>ID = msg.TransferID\<close> and
  \<open>Initiator = p\<close> when the message is a request, \<open>Initiator = self\<close> when it is a
  response: that is the id it raises the event with and binds. The outgoing-request
  hook, run when the local peer issued the block-transport request, applies the
  mirrored rule: \<open>Initiator = self\<close> when the message is a request and
  \<open>Initiator = p\<close> when it is a response.
\<close>

theorem initiator_by_hook:
  assumes "GetTransferData cdc (reqExtension request) = (Some m, None)"
      and "events (tr w) = Some ev"
      and "incomingChid = \<lparr>Initiator = (if IsRequest m then p else peerID (tr w)), ID = TransferID m\<rparr>"
      and "outgoingChid = \<lparr>Initiator = (if IsRequest m then peerID (tr w) else p), ID = TransferID m\<rparr>"
  shows "(\<exists>acts w'. gsReqRecdHook cdc p request w = Done (acts, w')
            \<and> effects w' = effects w @ [case m of
                                            Request r \<Rightarrow> EvRequestReceived incomingChid r
                                          | Response r \<Rightarrow> EvResponseReceived incomingChid r]
            \<and> (ValidateRequest \<in> set acts \<longrightarrow>
                 graphsyncRequestMap (tr w') \<lparr>requestID = reqID request, keyPeer = p\<rparr>
                   = Some incomingChid
               \<and> channelIDMap (tr w') incomingChid
                   = Some \<lparr>requestID = reqID request, keyPeer = p\<rparr>))
       \<and> (\<exists>w'. gsOutgoingRequestHook cdc p request w = Done ([], w')
            \<and> effects w' = effects w @ EvChannelOpened outgoingChid
                              # (if pending (tr w) outgoingChid = None then []
                                 else [ClosePending outgoingChid]))"
proof (cases m)
  case (Request r)
  with assms gsReqRecdHook_request_effects [of cdc request r w ev p]
    gsOutgoingRequestHook_effects [of cdc request m w ev outgoingChid p]
  show ?thesis by simp
next
  case (Response r)
  with assms gsReqRecdHook_response_effects [of cdc request r w ev p]
    gsOutgoingRequestHook_effects [of cdc request m w ev outgoingChid p]
  show ?thesis by simp
qed

theorem initiator_by_hook_witness:
  "GetTransferData testCodec (reqExtension (fakeRequest 1 (Some [0, 42])))
     = (Some (Request (testRequest 42)), None)
   \<and> events (tr (started noReturns)) = Some (fakeEvents noReturns)
   \<and> (\<exists>acts w'. gsReqRecdHook testCodec ''B'' (fakeRequest 1 (Some [0, 42])) (started noReturns)
                   = Done (acts, w')
         \<and> effects w' = [EvRequestReceived \<lparr>Initiator = ''B'', ID = 42\<rparr> (testRequest 42)]
         \<and> (ValidateRequest \<in> set acts \<longrightarrow>
              graphsyncRequestMap (tr w') \<lparr>requestID = 1, keyPeer = ''B''\<rparr>
                = Some \<lparr>Initiator = ''B'', ID = 42\<rparr>
            \<and> channelIDMap (tr w') \<lparr>Initiator = ''B'', ID = 42\<rparr>
                = Some \<lparr>requestID = 1, keyPeer = ''B''\<rparr>))
   \<and> (\<exists>w'. gsOutgoingRequestHook testCodec ''B'' (fakeRequest 1 (Some [0, 42])) (started noReturns)
              = Done ([], w')
         \<and> effects w' = [EvChannelOpened \<lparr>Initiator = ''A'', ID = 42\<rparr>])"
proof -
  have a: "GetTransferData testCodec (reqExtension (fakeRequest 1 (Some [0, 42])))
             = (Some (Request (testRequest 42)), None)"
    using decode_request [of 1 42] by simp
  have b: "events (tr (started noReturns)) = Some (fakeEvents noReturns)"
    by (simp add: started_eq)
  have c: "peerID (tr (started noReturns)) = ''A''" "effects (started noReturns) = []"
    "pending (tr (started noReturns)) = Map.empty" "reqID (fakeRequest 1 (Some [0, 42])) = 1"
    by (simp_all add: started_eq NewTransport_def fakeRequest_def)
  show ?thesis
    using a b initiator_by_hook [OF a b refl refl, of "''B''"]
    by (simp add: c testRequest_def)
qed

text \<open>
  Against C1 as stated: peer \<open>''B''\<close> is the remote peer of an outgoing graphsync
  request that carries a data-transfer request; the outgoing-request hook of local
  peer \<open>''A''\<close> opens and binds the channel with initiator \<open>''A''\<close>, not \<open>''B''\<close>.
\<close>

theorem outgoing_initiator_counterexample:
  "gsOutgoingRequestHook testCodec ''B'' (fakeRequest 1 (Some [0, 42])) (started noReturns)
     = Done ([], (started noReturns)
                   \<lparr>tr := (tr (started noReturns))
                            \<lparr>graphsyncRequestMap :=
                               [\<lparr>requestID = 1, keyPeer = ''A''\<rparr> \<mapsto> \<lparr>Initiator = ''A'', ID = 42\<rparr>],
                             channelIDMap :=
                               [\<lparr>Initiator = ''A'', ID = 42\<rparr> \<mapsto> \<lparr>requestID = 1, keyPeer = ''A''\<rparr>]\<rparr>,
                    hs := 1,
                    effects := [EvChannelOpened \<lparr>Initiator = ''A'', ID = 42\<rparr>]\<rparr>)
   \<and> GetTransferData testCodec (reqExtension (fakeRequest 1 (Some [0, 42])))
       = (Some (Request (testRequest 42)), None)
   \<and> IsRequest (Request (testRequest 42))
   \<and> peerID (tr (started noReturns)) = ''A'' \<and> ''A'' \<noteq> ''B''"
  by (simp add: gsOutgoingRequestHook_def invoke_eq fixture_defs Let_def)

text \<open>
  Claim C2, as amended. On a correlated channel with a block-progress record, one call
  of the outgoing-block hook raises \<^verbatim>\<open>OnDataSent\<close> at most once, and exactly when the
  running count \<open>currentSent\<close>, after the block's size is added, passes \<open>maximumSent\<close>.
  Hence blocks that the block transport sends again after the incoming-request hook
  has reset \<open>currentSent\<close> raise no \<^verbatim>\<open>OnDataSent\<close> as long as their sizes, added to
  \<open>currentSent\<close>, stay at or below \<open>maximumSent\<close>: each byte extent is reported once.
\<close>

theorem data_sent_watermark:
  assumes "graphsyncRequestMap (tr w) \<lparr>requestID = reqID request, keyPeer = p\<rparr> = Some chid"
      and "responseProgressMap (tr w) chid = Some rp"
      and "events (tr w) = Some ev"
  shows "(\<exists>acts w'. gsOutgoingBlockHook cdc p request block w = Done (acts, w')
            \<and> effects w' = effects w
                 @ (if currentSent rp + BlockSize block \<le> maximumSent rp then []
                    else [EvDataSent chid (blockLink block) (BlockSize block)]))
       \<and> (unat (currentSent rp) + sum_list (map (\<lambda>b. unat (BlockSize b)) blocks)
             \<le> unat (maximumSent rp) \<longrightarrow>
            (\<exists>w'. outgoingBlocks cdc p request blocks w = Done w'
               \<and> effects w' = effects w
               \<and> responseProgressMap (tr w') chid
                   = Some (rp\<lparr>currentSent := currentSent rp + sum_list (map BlockSize blocks)\<rparr>)))"
proof
  show "\<exists>acts w'. gsOutgoingBlockHook cdc p request block w = Done (acts, w')
            \<and> effects w' = effects w
                 @ (if currentSent rp + BlockSize block \<le> maximumSent rp then []
                    else [EvDataSent chid (blockLink block) (BlockSize block)])"
  proof (cases "currentSent rp + BlockSize block \<le> maximumSent rp")
    case True
    from outgoing_block_quiet [OF assms(1) assms(2) True, of cdc] True
    show ?thesis by simp
  next
    case False
    from outgoing_block_raises [OF assms(1) assms(2) assms(3) False, of cdc] False
    show ?thesis by auto
  qed
next
  show "unat (currentSent rp) + sum_list (map (\<lambda>b. unat (BlockSize b)) blocks)
             \<le> unat (maximumSent rp) \<longrightarrow>
            (\<exists>w'. outgoingBlocks cdc p request blocks w = Done w'
               \<and> effects w' = effects w
               \<and> responseProgressMap (tr w') chid
                   = Some (rp\<lparr>currentSent := currentSent rp + sum_list (map BlockSize blocks)\<rparr>))"
    using outgoing_blocks_replay [OF assms(1) assms(2), of blocks cdc] by blast
qed

theorem data_sent_watermark_witness:
  "graphsyncRequestMap (tr restarted) \<lparr>requestID = 1, keyPeer = ''B''\<rparr>
     = Some \<lparr>Initiator = ''B'', ID = 7\<rparr>
   \<and> responseProgressMap (tr restarted) \<lparr>Initiator = ''B'', ID = 7\<rparr>
       = Some \<lparr>currentSent = 0, maximumSent = 100\<rparr>
   \<and> events (tr restarted) = Some (fakeEvents noReturns)
   \<and> unat (0 :: 64 word) + sum_list (map (\<lambda>b. unat (BlockSize b)) [testBlock])
       \<le> unat (100 :: 64 word)
   \<and> (\<exists>acts w'. gsOutgoingBlockHook testCodec ''B'' (fakeRequest 1 (Some [0, 7])) testBlock restarted
                   = Done (acts, w')
         \<and> effects w' = effects restarted)
   \<and> (\<exists>w'. outgoingBlocks testCodec ''B'' (fakeRequest 1 (Some [0, 7])) [testBlock] restarted
              = Done w'
         \<and> effects w' = effects restarted
         \<and> responseProgressMap (tr w') \<lparr>Initiator = ''B'', ID = 7\<rparr>
             = Some \<lparr>currentSent = 100, maximumSent = 100\<rparr>)"
proof -
  have a: "graphsyncRequestMap (tr restarted)
             \<lparr>requestID = reqID (fakeRequest 1 (Some [0, 7])), keyPeer = ''B''\<rparr>
             = Some \<lparr>Initiator = ''B'', ID = 7\<rparr>"
    by (simp add: restarted_eq sentOne_eq serving_eq fakeRequest_def)
  have b: "responseProgressMap (tr restarted) \<lparr>Initiator = ''B'', ID = 7\<rparr>
             = Some \<lparr>currentSent = 0, maximumSent = 100\<rparr>"
    by (simp add: restarted_eq)
  have c: "events (tr restarted) = Some (fakeEvents noReturns)"
    by (simp add: restarted_eq sentOne_eq serving_eq)
  have d: "unat (0 :: 64 word) + sum_list (map (\<lambda>b. unat (BlockSize b)) [testBlock])
             \<le> unat (100 :: 64 word)"
    by (simp add: testBlock_def)
  show ?thesis
    using a b c d data_sent_watermark [OF a b c, of testCodec testBlock "[testBlock]"]
    by (simp add: fakeRequest_def testBlock_def)
qed

text \<open>
  Against C2 as stated: on the channel served for \<open>''B''\<close>, the outgoing-block hook is
  called three times in a row with the same block of size 100. \<^verbatim>\<open>OnDataSent\<close> is raised
  three times: the running count goes 100, 200, 300 and passes the maximum each time.
\<close>

theorem data_sent_replay_counterexample:
  "outgoingBlocks testCodec ''B'' (fakeRequest 1 (Some [0, 7])) [testBlock, testBlock, testBlock]
     (serving noReturns)
   = Done ((serving noReturns)
             \<lparr>tr := (tr (serving noReturns))
                      \<lparr>responseProgressMap :=
                         [\<lparr>Initiator = ''B'', ID = 7\<rparr> \<mapsto> \<lparr>currentSent = 300, maximumSent = 300\<rparr>]\<rparr>,
              hs := 4,
              effects := [EvRequestReceived \<lparr>Initiator = ''B'', ID = 7\<rparr> (testRequest 7),
                          EvDataSent \<lparr>Initiator = ''B'', ID = 7\<rparr> ''link'' 100,
                          EvDataSent \<lparr>Initiator = ''B'', ID = 7\<rparr> ''link'' 100,
                          EvDataSent \<lparr>Initiator = ''B'', ID = 7\<rparr> ''link'' 100]\<rparr>)"
  unfolding serving_eq
  by (simp add: gsOutgoingBlockHook_def invoke_eq fixture_defs Let_def)

text \<open>
  Claim C3. The requestor-cancelled listener sets the flag of the channel bound to its
  request. While the flag is set for \<open>chid\<close>, a call of \<^verbatim>\<open>PauseChannel\<close>,
  \<^verbatim>\<open>ResumeChannel\<close> or \<^verbatim>\<open>CloseChannel\<close> for \<open>chid\<close> issues no \<^verbatim>\<open>PauseResponse\<close>,
  \<^verbatim>\<open>UnpauseResponse\<close> or \<^verbatim>\<open>CancelResponse\<close>: whatever the rest of the state, it adds
  nothing to the effects, or one call on the requester side. On the channel the flag
  is about (handler set, \<open>chid\<close> bound to a key of a remote peer): Pause returns
  success and changes nothing, Resume appends the encoded message to the queued
  extensions of \<open>chid\<close> and returns success, Close runs \<^verbatim>\<open>cleanupChannel\<close> and returns
  success, after which no per-channel entry of \<open>chid\<close> is left.
\<close>

theorem requestor_cancelled_suppresses:
  assumes "requestorCancelledMap (tr w) chid \<noteq> None"
  shows "(effects (snd (PauseChannel ctxDone chid w)) = effects w
          \<or> (\<exists>rid. effects (snd (PauseChannel ctxDone chid w)) = effects w @ [GsPauseRequest rid]))
       \<and> (effects (snd (ResumeChannel cdc ctxDone omsg chid w)) = effects w
          \<or> (\<exists>rid exts. effects (snd (ResumeChannel cdc ctxDone omsg chid w))
                           = effects w @ [GsUnpauseRequest rid exts]))
       \<and> (effects (snd (CloseChannel ctxDone chid w)) = effects w
          \<or> effects (snd (CloseChannel ctxDone chid w)) = effects w @ [CancelFn chid])
       \<and> (events (tr w) = Some ev \<and> channelIDMap (tr w) chid = Some gsKey
            \<and> keyPeer gsKey \<noteq> peerID (tr w) \<longrightarrow>
            PauseChannel ctxDone chid w = (Returns None, w)
          \<and> (ToExtensionData cdc msg = Inr ext \<longrightarrow>
               ResumeChannel cdc ctxDone (Some msg) chid w
                 = (Returns None,
                    w\<lparr>tr := (tr w)\<lparr>pendingExtensions :=
                                     (pendingExtensions (tr w))
                                       (chid \<mapsto> (case pendingExtensions (tr w) chid of
                                                    None \<Rightarrow> []
                                                  | Some queued \<Rightarrow> queued) @ [ext])\<rparr>\<rparr>))
          \<and> CloseChannel ctxDone chid w = (Returns None, w\<lparr>tr := cleanupChannel chid gsKey (tr w)\<rparr>)
          \<and> channelIDMap (cleanupChannel chid gsKey (tr w)) chid = None
          \<and> graphsyncRequestMap (cleanupChannel chid gsKey (tr w)) gsKey = None
          \<and> contextCancelMap (cleanupChannel chid gsKey (tr w)) chid = None
          \<and> pending (cleanupChannel chid gsKey (tr w)) chid = None
          \<and> responseProgressMap (cleanupChannel chid gsKey (tr w)) chid = None
          \<and> pendingExtensions (cleanupChannel chid gsKey (tr w)) chid = None
          \<and> requestorCancelledMap (cleanupChannel chid gsKey (tr w)) chid = None)
       \<and> (graphsyncRequestMap (tr w0) \<lparr>requestID = reqID request, keyPeer = p\<rparr> = Some chid \<longrightarrow>
            gsRequestorCancelledListener p request w0
              = w0\<lparr>tr := (tr w0)\<lparr>requestorCancelledMap :=
                                   (requestorCancelledMap (tr w0))(chid \<mapsto> ())\<rparr>\<rparr>)"
  using assms
  by (auto simp add: PauseChannel_def ResumeChannel_def CloseChannel_def invoke_eq Let_def
        gsKeyFromChannelID_def cleanupChannel_def gsRequestorCancelledListener_def
        split: option.splits sum.splits)

theorem requestor_cancelled_suppresses_witness:
  "graphsyncRequestMap (tr (serving noReturns)) \<lparr>requestID = 1, keyPeer = ''B''\<rparr>
     = Some \<lparr>Initiator = ''B'', ID = 7\<rparr>
   \<and> gsRequestorCancelledListener ''B'' (fakeRequest 1 (Some [0, 7])) (serving noReturns) = cancelled
   \<and> requestorCancelledMap (tr cancelled) \<lparr>Initiator = ''B'', ID = 7\<rparr> \<noteq> None
   \<and> events (tr cancelled) = Some (fakeEvents noReturns)
   \<and> channelIDMap (tr cancelled) \<lparr>Initiator = ''B'', ID = 7\<rparr>
       = Some \<lparr>requestID = 1, keyPeer = ''B''\<rparr>
   \<and> keyPeer \<lparr>requestID = 1, keyPeer = ''B''\<rparr> \<noteq> peerID (tr cancelled)
   \<and> ToExtensionData testCodec (Response (testResponse 7))
       = Inr \<lparr>Name = ''fil/data-transfer'', Data = [1, 7]\<rparr>
   \<and> PauseChannel False \<lparr>Initiator = ''B'', ID = 7\<rparr> cancelled = (Returns None, cancelled)
   \<and> ResumeChannel testCodec False (Some (Response (testResponse 7)))
         \<lparr>Initiator = ''B'', ID = 7\<rparr> cancelled
       = (Returns None,
          cancelled\<lparr>tr := (tr cancelled)
                             \<lparr>pendingExtensions :=
                                [\<lparr>Initiator = ''B'', ID = 7\<rparr>
                                   \<mapsto> [\<lparr>Name = ''fil/data-transfer'', Data = [1, 7]\<rparr>]]\<rparr>\<rparr>)
   \<and> CloseChannel False \<lparr>Initiator = ''B'', ID = 7\<rparr> cancelled
       = (Returns None,
          cancelled\<lparr>tr := cleanupChannel \<lparr>Initiator = ''B'', ID = 7\<rparr>
                             \<lparr>requestID = 1, keyPeer = ''B''\<rparr> (tr cancelled)\<rparr>)"
proof -
  have a: "requestorCancelledMap (tr cancelled) \<lparr>Initiator = ''B'', ID = 7\<rparr> \<noteq> None"
    by (simp add: cancelled_eq)
  have b: "events (tr cancelled) = Some (fakeEvents noReturns)"
    "channelIDMap (tr cancelled) \<lparr>Initiator = ''B'', ID = 7\<rparr>
       = Some \<lparr>requestID = 1, keyPeer = ''B''\<rparr>"
    "peerID (tr cancelled) = ''A''"
    "pendingExtensions (tr cancelled) = Map.empty"
    by (simp_all add: cancelled_eq serving_eq NewTransport_def)
  have c: "ToExtensionData testCodec (Response (testResponse 7))
             = Inr \<lparr>Name = ''fil/data-transfer'', Data = [1, 7]\<rparr>"
    by (simp add: fixture_defs)
  have d: "graphsyncRequestMap (tr (serving noReturns)) \<lparr>requestID = 1, keyPeer = ''B''\<rparr>
             = Some \<lparr>Initiator = ''B'', ID = 7\<rparr>"
    "reqID (fakeRequest 1 (Some [0, 7])) = 1"
    by (simp_all add: serving_eq fakeRequest_def)
  have e: "gsRequestorCancelledListener ''B'' (fakeRequest 1 (Some [0, 7])) (serving noReturns)
             = cancelled"
    by (simp add: cancelled_def)
  show ?thesis
    using a b c d e
      requestor_cancelled_suppresses [OF a, where ctxDone = False and cdc = testCodec
        and omsg = None and ev = "fakeEvents noReturns"
        and gsKey = "\<lparr>requestID = 1, keyPeer = ''B''\<rparr>" and msg = "Response (testResponse 7)"
        and ext = "\<lparr>Name = ''fil/data-transfer'', Data = [1, 7]\<rparr>"
        and ?w0.0 = "serving noReturns" and request = "fakeRequest 1 (Some [0, 7])" and p = "''B''"]
    by simp
qed

text \<open>
  Claim C4. In the outgoing-request hook, when the \<^verbatim>\<open>OnChannelOpened\<close> handler returns
  an error, neither correlation map changes, and a pending-signal of the channel is
  still closed and removed, so a control call for a channel that is not bound returns
  \<^verbatim>\<open>ErrChannelNotFound\<close>; when the handler returns no error, \<open>(requestID, self)\<close> and
  the channel id are bound to each other in both maps.
\<close>

theorem outgoing_request_binding:
  assumes "fst (GetTransferData cdc (reqExtension request)) = Some message"
      and "events (tr w) = Some ev"
      and "chid = \<lparr>Initiator = (if IsRequest message then peerID (tr w) else p),
                   ID = TransferID message\<rparr>"
      and "gsKey = \<lparr>requestID = reqID request, keyPeer = peerID (tr w)\<rparr>"
      and "openedErr = fst (OnChannelOpened ev (hs w) chid)"
  shows "\<exists>w'. gsOutgoingRequestHook cdc p request w = Done ([], w')
           \<and> pending (tr w') chid = None
           \<and> effects w' = effects w @ EvChannelOpened chid
                             # (if pending (tr w) chid = None then [] else [ClosePending chid])
           \<and> (openedErr \<noteq> None \<longrightarrow>
                graphsyncRequestMap (tr w') = graphsyncRequestMap (tr w)
              \<and> channelIDMap (tr w') = channelIDMap (tr w)
              \<and> (channelIDMap (tr w) chid = None \<longrightarrow>
                    PauseChannel ctxDone chid w' = (Returns (Some ErrChannelNotFound), w')
                  \<and> ResumeChannel cdc ctxDone omsg chid w' = (Returns (Some ErrChannelNotFound), w')
                  \<and> CloseChannel ctxDone chid w' = (Returns (Some ErrChannelNotFound), w')))
           \<and> (openedErr = None \<longrightarrow>
                graphsyncRequestMap (tr w') = (graphsyncRequestMap (tr w))(gsKey \<mapsto> chid)
              \<and> channelIDMap (tr w') = (channelIDMap (tr w))(chid \<mapsto> gsKey))"
  using assms
  by (cases "pending (tr w) chid"; cases "fst (OnChannelOpened ev (hs w) chid)")
     (simp_all add: gsOutgoingRequestHook_def invoke_eq Let_def PauseChannel_def ResumeChannel_def
        CloseChannel_def gsKeyFromChannelID_def)

theorem outgoing_request_binding_witness:
  "fst (GetTransferData testCodec (reqExtension (fakeRequest 5 (Some [0, 7]))))
     = Some (Request (testRequest 7))
   \<and> events (tr (opened (noReturns\<lparr>OnChannelOpenedError := Some (ErrorNew ''Not recognized'')\<rparr>)))
       = Some (fakeEvents (noReturns\<lparr>OnChannelOpenedError := Some (ErrorNew ''Not recognized'')\<rparr>))
   \<and> (\<exists>w'. gsOutgoingRequestHook testCodec ''B'' (fakeRequest 5 (Some [0, 7]))
               (opened (noReturns\<lparr>OnChannelOpenedError := Some (ErrorNew ''Not recognized'')\<rparr>))
              = Done ([], w')
         \<and> pending (tr w') \<lparr>Initiator = ''A'', ID = 7\<rparr> = None
         \<and> effects w' = [GsRequest ''B'' ''root'' (Some ''selector'')
                            \<lparr>Name = ''fil/data-transfer'', Data = [0, 7]\<rparr>,
                          EvChannelOpened \<lparr>Initiator = ''A'', ID = 7\<rparr>,
                          ClosePending \<lparr>Initiator = ''A'', ID = 7\<rparr>]
         \<and> graphsyncRequestMap (tr w') = Map.empty
         \<and> channelIDMap (tr w') = Map.empty
         \<and> PauseChannel False \<lparr>Initiator = ''A'', ID = 7\<rparr> w'
             = (Returns (Some ErrChannelNotFound), w'))
   \<and> events (tr (opened noReturns)) = Some (fakeEvents noReturns)
   \<and> (\<exists>w'. gsOutgoingRequestHook testCodec ''B'' (fakeRequest 5 (Some [0, 7])) (opened noReturns)
              = Done ([], w')
         \<and> pending (tr w') \<lparr>Initiator = ''A'', ID = 7\<rparr> = None
         \<and> graphsyncRequestMap (tr w')
             = [\<lparr>requestID = 5, keyPeer = ''A''\<rparr> \<mapsto> \<lparr>Initiator = ''A'', ID = 7\<rparr>]
         \<and> channelIDMap (tr w')
             = [\<lparr>Initiator = ''A'', ID = 7\<rparr> \<mapsto> \<lparr>requestID = 5, keyPeer = ''A''\<rparr>])"
proof -
  let ?rej = "noReturns\<lparr>OnChannelOpenedError := Some (ErrorNew ''Not recognized'')\<rparr>"
  have a: "fst (GetTransferData testCodec (reqExtension (fakeRequest 5 (Some [0, 7]))))
             = Some (Request (testRequest 7))"
    using decode_request [of 5 7] by simp
  have b: "events (tr (opened fe)) = Some (fakeEvents fe)" for fe
    by (simp add: opened_eq)
  have c: "peerID (tr (opened fe)) = ''A''" "hs (opened fe) = 1"
    "pending (tr (opened fe)) = [\<lparr>Initiator = ''A'', ID = 7\<rparr> \<mapsto> ()]"
    "channelIDMap (tr (opened fe)) = Map.empty"
    "graphsyncRequestMap (tr (opened fe)) = Map.empty"
    "effects (opened fe) = [GsRequest ''B'' ''root'' (Some ''selector'')
                              \<lparr>Name = ''fil/data-transfer'', Data = [0, 7]\<rparr>]" for fe
    by (simp_all add: opened_eq NewTransport_def)
  have d: "fst (OnChannelOpened (fakeEvents ?rej) h chid) = Some (ErrorNew ''Not recognized'')"
    "fst (OnChannelOpened (fakeEvents noReturns) h chid) = None" for h chid
    by (simp_all add: fakeEvents_def noReturns_def)
  have e: "reqID (fakeRequest 5 (Some [0, 7])) = 5" "ReqXferID (testRequest 7) = 7"
    by (simp_all add: fakeRequest_def testRequest_def)
  show ?thesis
    using a b [of ?rej] b [of noReturns]
      outgoing_request_binding [where p = "''B''" and ctxDone = False and omsg = None,
        OF a b [of ?rej] refl refl refl]
      outgoing_request_binding [where p = "''B''" and ctxDone = False and omsg = None,
        OF a b [of noReturns] refl refl refl]
    by (simp add: c d e) blast
qed

text \<open>
  Claim C5. When the data-transfer extension of an incoming block-transport request is
  present but does not decode, the incoming-request hook terminates with the decode
  error and does nothing else: the state is unchanged, so no event is raised (neither
  \<^verbatim>\<open>OnRequestReceived\<close> nor \<^verbatim>\<open>OnResponseReceived\<close>) and no binding is created, and the
  request is not validated.
\<close>

theorem malformed_incoming_request:
  assumes "reqExtension request ExtensionDataTransfer = Some data"
      and "FromNet cdc data = Inl err"
  shows "gsReqRecdHook cdc p request w = Done ([TerminateWithError (Some err)], w)"
  using assms by (simp add: gsReqRecdHook_def GetTransferData_def)

theorem malformed_incoming_request_witness:
  "reqExtension (fakeRequest 1 (Some (replicate 100 255))) ExtensionDataTransfer
     = Some (replicate 100 255)
   \<and> FromNet testCodec (replicate 100 255) = Inl (ErrorNew ''malformed'')
   \<and> gsReqRecdHook testCodec ''B'' (fakeRequest 1 (Some (replicate 100 255))) (started noReturns)
       = Done ([TerminateWithError (Some (ErrorNew ''malformed''))], started noReturns)"
proof -
  have a: "reqExtension (fakeRequest 1 (Some (replicate 100 255))) ExtensionDataTransfer
             = Some (replicate 100 255)"
    by (simp add: fakeRequest_def)
  have "replicate 100 (255 :: 8 word) = 255 # 255 # 255 # replicate 97 255"
    by (simp add: numeral_eq_Suc)
  then have b: "FromNet testCodec (replicate 100 255) = Inl (ErrorNew ''malformed'')"
    by (simp add: testCodec_def)
  show ?thesis
    using a b malformed_incoming_request [OF a b] by simp
qed

text \<open>
  Claim C6. The completed-response listener: when the key \<open>(requestID, p)\<close> is unknown
  it does nothing; when the status is \<^verbatim>\<open>RequestCancelled\<close> it raises no event;
  otherwise it raises \<^verbatim>\<open>OnChannelCompleted(chid, success)\<close> with \<open>success\<close> true exactly
  for \<^verbatim>\<open>RequestCompletedFull\<close>. In both correlated cases it then runs
  \<^verbatim>\<open>cleanupChannel\<close>, which leaves no per-channel entry of \<open>chid\<close>.
\<close>

theorem completed_response_listener:
  "(graphsyncRequestMap (tr w) \<lparr>requestID = reqID request, keyPeer = p\<rparr> = None \<longrightarrow>
      gsCompletedResponseListener p request status w = Done w)
 \<and> (graphsyncRequestMap (tr w) \<lparr>requestID = reqID request, keyPeer = p\<rparr> = Some chid \<longrightarrow>
      gsCompletedResponseListener p request RequestCancelled w
        = Done (w\<lparr>tr := cleanupChannel chid \<lparr>requestID = reqID request, keyPeer = p\<rparr> (tr w)\<rparr>))
 \<and> (graphsyncRequestMap (tr w) \<lparr>requestID = reqID request, keyPeer = p\<rparr> = Some chid
      \<and> events (tr w) = Some ev \<and> status \<noteq> RequestCancelled \<longrightarrow>
      gsCompletedResponseListener p request status w
        = Done (w\<lparr>tr := cleanupChannel chid \<lparr>requestID = reqID request, keyPeer = p\<rparr> (tr w),
                  hs := snd (OnChannelCompleted ev (hs w) chid (status = RequestCompletedFull)),
                  effects := effects w @ [EvChannelCompleted chid (status = RequestCompletedFull)]\<rparr>))
 \<and> (let t' = cleanupChannel chid gsKey (tr w)
    in channelIDMap t' chid = None \<and> graphsyncRequestMap t' gsKey = None
     \<and> contextCancelMap t' chid = None \<and> pending t' chid = None
     \<and> responseProgressMap t' chid = None \<and> pendingExtensions t' chid = None
     \<and> requestorCancelledMap t' chid = None)"
  by (simp add: gsCompletedResponseListener_def invoke_eq cleanupChannel_def Let_def)

theorem completed_response_listener_witness:
  "graphsyncRequestMap (tr (serving noReturns)) \<lparr>requestID = 2, keyPeer = ''B''\<rparr> = None
   \<and> gsCompletedResponseListener ''B'' (fakeRequest 2 None) RequestCompletedFull (serving noReturns)
       = Done (serving noReturns)
   \<and> graphsyncRequestMap (tr (serving noReturns)) \<lparr>requestID = 1, keyPeer = ''B''\<rparr>
       = Some \<lparr>Initiator = ''B'', ID = 7\<rparr>
   \<and> events (tr (serving noReturns)) = Some (fakeEvents noReturns)
   \<and> gsCompletedResponseListener ''B'' (fakeRequest 1 None) RequestCancelled (serving noReturns)
       = Done ((serving noReturns)
                 \<lparr>tr := cleanupChannel \<lparr>Initiator = ''B'', ID = 7\<rparr>
                          \<lparr>requestID = 1, keyPeer = ''B''\<rparr> (tr (serving noReturns))\<rparr>)
   \<and> gsCompletedResponseListener ''B'' (fakeRequest 1 None) RequestCompletedPartial
         (serving noReturns)
       = Done ((serving noReturns)
                 \<lparr>tr := cleanupChannel \<lparr>Initiator = ''B'', ID = 7\<rparr>
                          \<lparr>requestID = 1, keyPeer = ''B''\<rparr> (tr (serving noReturns)),
                  hs := 2,
                  effects := [EvRequestReceived \<lparr>Initiator = ''B'', ID = 7\<rparr> (testRequest 7),
                              EvChannelCompleted \<lparr>Initiator = ''B'', ID = 7\<rparr> False]\<rparr>)"
proof -
  have a: "graphsyncRequestMap (tr (serving noReturns)) \<lparr>requestID = 2, keyPeer = ''B''\<rparr> = None"
    "graphsyncRequestMap (tr (serving noReturns)) \<lparr>requestID = 1, keyPeer = ''B''\<rparr>
       = Some \<lparr>Initiator = ''B'', ID = 7\<rparr>"
    "events (tr (serving noReturns)) = Some (fakeEvents noReturns)"
    "hs (serving noReturns) = 1"
    "effects (serving noReturns) = [EvRequestReceived \<lparr>Initiator = ''B'', ID = 7\<rparr> (testRequest 7)]"
    by (simp_all add: serving_eq)
  have b: "reqID (fakeRequest n None) = n"
    "snd (OnChannelCompleted (fakeEvents noReturns) h chid success) = Suc h" for n h chid success
    by (simp_all add: fakeRequest_def fakeEvents_def)
  show ?thesis
    using
      completed_response_listener [of "serving noReturns" "fakeRequest 2 None" "''B''"
        RequestCompletedFull]
      completed_response_listener [of "serving noReturns" "fakeRequest 1 None" "''B''"
        RequestCompletedPartial "\<lparr>Initiator = ''B'', ID = 7\<rparr>" "fakeEvents noReturns"]
    by (simp add: a b)
qed

text \<open>
  Claim C7. For an extension that decodes, on a correlated channel \<open>chid\<close>, in the
  request-updated hook and in the incoming-response hook: a request on a channel that
  is not \<open>(ID = msg.TransferID, Initiator = p)\<close> fails with "received request on
  response channel", a response on a channel that is not
  \<open>(ID = msg.TransferID, Initiator = self)\<close> fails with "received response on request
  channel", in both cases with the state unchanged (no event) and the hook terminated
  with that error; otherwise \<^verbatim>\<open>OnRequestReceived\<close>, respectively
  \<^verbatim>\<open>OnResponseReceived\<close>, is raised for \<open>chid\<close>.
\<close>

theorem direction_revalidated:
  assumes "GetTransferData cdc gsMsg = (Some m, None)"
      and "events (tr w) = Some ev"
  shows "(IsRequest m \<and> chid \<noteq> \<lparr>Initiator = p, ID = TransferID m\<rparr> \<longrightarrow>
            processExtension cdc chid gsMsg p w
              = Done ((None, Some (ErrorNew ''received request on response channel'')), w)
          \<and> (graphsyncRequestMap (tr w) \<lparr>requestID = reqID request, keyPeer = p\<rparr> = Some chid
               \<and> reqExtension update = gsMsg \<longrightarrow>
              gsRequestUpdatedHook cdc p request update w
                = Done ([TerminateWithError (Some (ErrorNew ''received request on response channel''))], w))
          \<and> (graphsyncRequestMap (tr w)
                 \<lparr>requestID = respRequestID response, keyPeer = peerID (tr w)\<rparr> = Some chid
               \<and> respExtension response = gsMsg \<longrightarrow>
              gsIncomingResponseHook cdc p response w
                = Done ([TerminateWithError (Some (ErrorNew ''received request on response channel''))], w)))
       \<and> (\<not> IsRequest m \<and> chid \<noteq> \<lparr>Initiator = peerID (tr w), ID = TransferID m\<rparr> \<longrightarrow>
            processExtension cdc chid gsMsg p w
              = Done ((None, Some (ErrorNew ''received response on request channel'')), w)
          \<and> (graphsyncRequestMap (tr w) \<lparr>requestID = reqID request, keyPeer = p\<rparr> = Some chid
               \<and> reqExtension update = gsMsg \<longrightarrow>
              gsRequestUpdatedHook cdc p request update w
                = Done ([TerminateWithError (Some (ErrorNew ''received response on request channel''))], w))
          \<and> (graphsyncRequestMap (tr w)
                 \<lparr>requestID = respRequestID response, keyPeer = peerID (tr w)\<rparr> = Some chid
               \<and> respExtension response = gsMsg \<longrightarrow>
              gsIncomingResponseHook cdc p response w
                = Done ([TerminateWithError (Some (ErrorNew ''received response on request channel''))], w)))
       \<and> (\<forall>r. m = Request r \<and> chid = \<lparr>Initiator = p, ID = TransferID m\<rparr> \<longrightarrow>
            processExtension cdc chid gsMsg p w
              = Done ((map_option Response (fst (fst (OnRequestReceived ev (hs w) chid r))),
                       snd (fst (OnRequestReceived ev (hs w) chid r))),
                      w\<lparr>hs := snd (OnRequestReceived ev (hs w) chid r),
                        effects := effects w @ [EvRequestReceived chid r]\<rparr>))
       \<and> (\<forall>r. m = Response r \<and> chid = \<lparr>Initiator = peerID (tr w), ID = TransferID m\<rparr> \<longrightarrow>
            processExtension cdc chid gsMsg p w
              = Done ((None, fst (OnResponseReceived ev (hs w) chid r)),
                      w\<lparr>hs := snd (OnResponseReceived ev (hs w) chid r),
                        effects := effects w @ [EvResponseReceived chid r]\<rparr>))"
proof (cases m)
  case (Request r)
  with assms show ?thesis
    by (simp add: processExtension_request_mismatch processExtension_request_match
          gsRequestUpdatedHook_def gsIncomingResponseHook_def replyActions_def)
next
  case (Response r)
  with assms show ?thesis
    by (simp add: processExtension_response_mismatch processExtension_response_match
          gsRequestUpdatedHook_def gsIncomingResponseHook_def replyActions_def)
qed

theorem direction_revalidated_witness:
  "GetTransferData testCodec (reqExtension (fakeRequest 1 (Some [1, 7])))
     = (Some (Response (testResponse 7)), None)
   \<and> GetTransferData testCodec (reqExtension (fakeRequest 1 (Some [0, 7])))
       = (Some (Request (testRequest 7)), None)
   \<and> events (tr (serving noReturns)) = Some (fakeEvents noReturns)
   \<and> graphsyncRequestMap (tr (serving noReturns)) \<lparr>requestID = 1, keyPeer = ''B''\<rparr>
       = Some \<lparr>Initiator = ''B'', ID = 7\<rparr>
   \<and> \<lparr>Initiator = ''B'', ID = 7\<rparr> \<noteq> \<lparr>Initiator = peerID (tr (serving noReturns)), ID = 7\<rparr>
   \<and> gsRequestUpdatedHook testCodec ''B'' (fakeRequest 1 (Some [0, 7]))
         (fakeRequest 1 (Some [1, 7])) (serving noReturns)
       = Done ([TerminateWithError (Some (ErrorNew ''received response on request channel''))],
               serving noReturns)
   \<and> processExtension testCodec \<lparr>Initiator = ''A'', ID = 7\<rparr>
         (reqExtension (fakeRequest 1 (Some [0, 7]))) ''B'' (serving noReturns)
       = Done ((None, Some (ErrorNew ''received request on response channel'')), serving noReturns)
   \<and> processExtension testCodec \<lparr>Initiator = ''B'', ID = 7\<rparr>
         (reqExtension (fakeRequest 1 (Some [0, 7]))) ''B'' (serving noReturns)
       = Done ((None, None),
               (serving noReturns)
                 \<lparr>hs := 2,
                  effects := [EvRequestReceived \<lparr>Initiator = ''B'', ID = 7\<rparr> (testRequest 7),
                              EvRequestReceived \<lparr>Initiator = ''B'', ID = 7\<rparr> (testRequest 7)]\<rparr>)"
proof -
  have a: "GetTransferData testCodec (reqExtension (fakeRequest 1 (Some [1, 7])))
             = (Some (Response (testResponse 7)), None)"
    using decode_response [of 1 7] by simp
  have a': "GetTransferData testCodec (reqExtension (fakeRequest 1 (Some [0, 7])))
              = (Some (Request (testRequest 7)), None)"
    using decode_request [of 1 7] by simp
  have b: "events (tr (serving noReturns)) = Some (fakeEvents noReturns)"
    by (simp add: serving_eq)
  have c: "graphsyncRequestMap (tr (serving noReturns)) \<lparr>requestID = 1, keyPeer = ''B''\<rparr>
             = Some \<lparr>Initiator = ''B'', ID = 7\<rparr>"
    "peerID (tr (serving noReturns)) = ''A''" "hs (serving noReturns) = 1"
    "effects (serving noReturns) = [EvRequestReceived \<lparr>Initiator = ''B'', ID = 7\<rparr> (testRequest 7)]"
    by (simp_all add: serving_eq NewTransport_def)
  have d: "reqID (fakeRequest 1 x) = 1" "XferID (testResponse 7) = 7" "ReqXferID (testRequest 7) = 7"
    "OnRequestReceived (fakeEvents noReturns) h chid r = ((None, None), Suc h)" for x h chid r
    by (simp_all add: fakeRequest_def testResponse_def testRequest_def fakeEvents_def noReturns_def)
  show ?thesis
    using a a' b
      direction_revalidated [OF a b, where chid = "\<lparr>Initiator = ''B'', ID = 7\<rparr>" and p = "''B''"
        and request = "fakeRequest 1 (Some [0, 7])" and update = "fakeRequest 1 (Some [1, 7])"]
      direction_revalidated [OF a' b, where chid = "\<lparr>Initiator = ''A'', ID = 7\<rparr>" and p = "''B''"]
      direction_revalidated [OF a' b, where chid = "\<lparr>Initiator = ''B'', ID = 7\<rparr>" and p = "''B''"]
    by (simp add: c d)
qed

text \<open>
  Claim C8, as amended. For a request received over the side channel for which the
  handler returns a response and an error other than \<^verbatim>\<open>ErrResume\<close> (the transport
  implementing \<^verbatim>\<open>PauseableTransport\<close>): when the response is accepted, is not an update,
  and the request is a push, the transport's \<^verbatim>\<open>OpenChannel\<close> is called towards the
  sender with the request's base cid as root, its decoded selector, and the response as
  the message; otherwise the response is sent over the side channel. When that call
  returns an error, the error is returned and nothing else is called. When it succeeds,
  \<^verbatim>\<open>PauseChannel(chid)\<close> is called next exactly when the handler's error is \<^verbatim>\<open>ErrPause\<close>
  (and \<^verbatim>\<open>CloseChannel(chid)\<close> when it is any other error).
\<close>

theorem receive_request_dispatch:
  assumes "chid = \<lparr>Initiator = initiator, ID = ReqXferID incoming\<rparr>"
      and "mgrOnRequestReceived manager (ms w) chid incoming = ((Some resp, receiveErr), s1)"
      and "receiveErr \<noteq> Some ErrResume"
      and "pauseable manager"
      and "stor = (case Selector cdc incoming of Inl e \<Rightarrow> None | Inr n \<Rightarrow> Some n)"
      and "opens = (\<not> IsUpdate resp \<and> Accepted resp \<and> \<not> IsPull incoming)"
      and "sendErr = (if opens
                      then fst (trOpenChannel manager s1 initiator chid (BaseCid incoming) stor
                                  (Response resp))
                      else fst (netSendMessage manager s1 initiator (Response resp)))"
  shows "\<exists>r w'. receiveRequest cdc manager initiator incoming w = Done (r, w')
           \<and> rcalls w' =
               rcalls w
               @ [MgrOnRequestReceived chid incoming,
                  if opens
                  then TrOpenChannel initiator chid (BaseCid incoming) stor (Response resp)
                  else NetSendMessage initiator (Response resp)]
               @ (if sendErr \<noteq> None then []
                  else if receiveErr = Some ErrPause then [TrPauseChannel chid]
                  else if receiveErr \<noteq> None then [TrCloseChannel chid]
                  else [])
           \<and> (sendErr \<noteq> None \<longrightarrow> r = sendErr)
           \<and> (sendErr = None \<longrightarrow>
                (TrPauseChannel chid \<in> set (drop (length (rcalls w)) (rcalls w'))
                   \<longleftrightarrow> receiveErr = Some ErrPause))"
  using assms
  by (auto simp add: receiveRequest_def rinvoke_eq Let_def split: prod.splits)

theorem receive_request_dispatch_witness:
  "mgrOnRequestReceived (fakeManager (Some (testResponse 7), Some ErrPause) None) 0
       \<lparr>Initiator = ''B'', ID = 7\<rparr> (testRequest 7)
     = ((Some (testResponse 7), Some ErrPause), 1)
   \<and> Some ErrPause \<noteq> Some ErrResume
   \<and> pauseable (fakeManager (Some (testResponse 7), Some ErrPause) None)
   \<and> (\<not> IsUpdate (testResponse 7) \<and> Accepted (testResponse 7) \<and> \<not> IsPull (testRequest 7))
   \<and> (\<exists>r w'. receiveRequest testCodec (fakeManager (Some (testResponse 7), Some ErrPause) None)
                 ''B'' (testRequest 7) \<lparr>ms = 0, rcalls = []\<rparr> = Done (r, w')
         \<and> rcalls w' = [MgrOnRequestReceived \<lparr>Initiator = ''B'', ID = 7\<rparr> (testRequest 7),
                         TrOpenChannel ''B'' \<lparr>Initiator = ''B'', ID = 7\<rparr> ''cid'' (Some ''selector'')
                           (Response (testResponse 7)),
                         TrPauseChannel \<lparr>Initiator = ''B'', ID = 7\<rparr>])"
proof -
  let ?m = "fakeManager (Some (testResponse 7), Some ErrPause) None"
  have a: "\<lparr>Initiator = ''B'', ID = 7\<rparr> = \<lparr>Initiator = ''B'', ID = ReqXferID (testRequest 7)\<rparr>"
    by (simp add: testRequest_def)
  have b: "mgrOnRequestReceived ?m (ms \<lparr>ms = 0, rcalls = []\<rparr>) \<lparr>Initiator = ''B'', ID = 7\<rparr>
             (testRequest 7) = ((Some (testResponse 7), Some ErrPause), 1)"
    by (simp add: fakeManager_def)
  have c: "Some ErrPause \<noteq> Some ErrResume"
    by simp
  have d: "pauseable ?m"
    by (simp add: fakeManager_def)
  have e: "\<not> IsUpdate (testResponse 7) \<and> Accepted (testResponse 7) \<and> \<not> IsPull (testRequest 7)"
    by (simp add: IsUpdate_def Accepted_def IsPull_def testResponse_def testRequest_def)
  have f: "Selector testCodec (testRequest 7) = Inr ''selector''" "BaseCid (testRequest 7) = ''cid''"
    "fst (trOpenChannel ?m s p chid root stor msg) = None" for s p chid root stor msg
    by (simp_all add: testCodec_def BaseCid_def testRequest_def fakeManager_def)
  show ?thesis
    using b c d e receive_request_dispatch [OF a b c d refl refl refl, of testCodec]
    by (simp add: f) blast
qed

text \<open>
  Against C8 as stated: the handler returns an accepted response and \<^verbatim>\<open>ErrPause\<close> for
  a push request, and the transport's \<^verbatim>\<open>OpenChannel\<close> fails. The receiver returns that
  error; \<^verbatim>\<open>PauseChannel\<close> is not called although the handler's error is \<^verbatim>\<open>ErrPause\<close>.
\<close>

theorem receive_request_pause_counterexample:
  "receiveRequest testCodec
     (fakeManager (Some (testResponse 7), Some ErrPause) (Some (ErrorNew ''stream reset'')))
     ''B'' (testRequest 7) \<lparr>ms = 0, rcalls = []\<rparr>
   = Done (Some (ErrorNew ''stream reset''),
           \<lparr>ms = 2,
            rcalls = [MgrOnRequestReceived \<lparr>Initiator = ''B'', ID = 7\<rparr> (testRequest 7),
                      TrOpenChannel ''B'' \<lparr>Initiator = ''B'', ID = 7\<rparr> ''cid'' (Some ''selector'')
                        (Response (testResponse 7))]\<rparr>)"
  by (simp add: receiveRequest_def rinvoke_eq Let_def fakeManager_def fixture_defs
        IsUpdate_def Accepted_def IsPull_def BaseCid_def)

text \<open>
  Claim C9. In every state of a run, a channel's block-progress record has
  \<open>currentSent \<le> maximumSent\<close> when the outgoing-block hook is entered, before it
  adds the block and compares; and when the hook has run, \<open>currentSent\<close> has grown by
  the block's size (\<^verbatim>\<open>uint64\<close> addition) and \<open>maximumSent\<close> is the maximum of its
  previous value and the new \<open>currentSent\<close>, so the order holds again.
\<close>

theorem progress_watermarks:
  assumes "reachable cdc w"
      and "graphsyncRequestMap (tr w) \<lparr>requestID = reqID request, keyPeer = p\<rparr> = Some chid"
      and "responseProgressMap (tr w) chid = Some rp"
      and "events (tr w) = Some ev"
  shows "currentSent rp \<le> maximumSent rp
       \<and> (\<exists>acts w' rp'. gsOutgoingBlockHook cdc p request block w = Done (acts, w')
            \<and> responseProgressMap (tr w') chid = Some rp'
            \<and> currentSent rp' = currentSent rp + BlockSize block
            \<and> maximumSent rp' = max (maximumSent rp) (currentSent rp')
            \<and> currentSent rp' \<le> maximumSent rp')"
proof
  show "currentSent rp \<le> maximumSent rp"
    using reachable_progressOrdered [OF assms(1)] assms(3) by (simp add: progressOrdered_def)
next
  show "\<exists>acts w' rp'. gsOutgoingBlockHook cdc p request block w = Done (acts, w')
            \<and> responseProgressMap (tr w') chid = Some rp'
            \<and> currentSent rp' = currentSent rp + BlockSize block
            \<and> maximumSent rp' = max (maximumSent rp) (currentSent rp')
            \<and> currentSent rp' \<le> maximumSent rp'"
  proof (cases "currentSent rp + BlockSize block \<le> maximumSent rp")
    case True
    let ?rp1 = "rp\<lparr>currentSent := currentSent rp + BlockSize block\<rparr>"
    let ?w1 = "w\<lparr>tr := (tr w)\<lparr>responseProgressMap := (responseProgressMap (tr w))(chid \<mapsto> ?rp1)\<rparr>\<rparr>"
    have "gsOutgoingBlockHook cdc p request block w = Done ([], ?w1)"
      using outgoing_block_quiet [OF assms(2) assms(3) True] .
    moreover have "maximumSent ?rp1 = max (maximumSent rp) (currentSent ?rp1)"
      using True by (simp add: max_def)
    ultimately show ?thesis
      using True
      by (intro exI [of _ "[]"] exI [of _ ?w1] exI [of _ ?rp1]) simp
  next
    case False
    let ?rp2 = "rp\<lparr>currentSent := currentSent rp + BlockSize block,
                    maximumSent := currentSent rp + BlockSize block\<rparr>"
    let ?w2 = "w\<lparr>tr := (tr w)\<lparr>responseProgressMap := (responseProgressMap (tr w))(chid \<mapsto> ?rp2)\<rparr>,
                 hs := snd (OnDataSent ev (hs w) chid (blockLink block) (BlockSize block)),
                 effects := effects w @ [EvDataSent chid (blockLink block) (BlockSize block)]\<rparr>"
    from outgoing_block_raises [OF assms(2) assms(3) assms(4) False, of cdc]
    obtain acts where "gsOutgoingBlockHook cdc p request block w = Done (acts, ?w2)"
      by blast
    moreover have "maximumSent ?rp2 = max (maximumSent rp) (currentSent ?rp2)"
      using False by (auto simp add: max_def)
    ultimately show ?thesis
      by (intro exI [of _ acts] exI [of _ ?w2] exI [of _ ?rp2]) simp
  qed
qed

theorem progress_watermarks_witness:
  "reachable testCodec (serving noReturns)
   \<and> graphsyncRequestMap (tr (serving noReturns)) \<lparr>requestID = 1, keyPeer = ''B''\<rparr>
       = Some \<lparr>Initiator = ''B'', ID = 7\<rparr>
   \<and> responseProgressMap (tr (serving noReturns)) \<lparr>Initiator = ''B'', ID = 7\<rparr>
       = Some \<lparr>currentSent = 0, maximumSent = 0\<rparr>
   \<and> events (tr (serving noReturns)) = Some (fakeEvents noReturns)
   \<and> (\<exists>acts w' rp'. gsOutgoingBlockHook testCodec ''B'' (fakeRequest 1 (Some [0, 7])) testBlock
                       (serving noReturns) = Done (acts, w')
         \<and> responseProgressMap (tr w') \<lparr>Initiator = ''B'', ID = 7\<rparr> = Some rp'
         \<and> currentSent rp' = 100 \<and> maximumSent rp' = 100)"
proof -
  have a: "graphsyncRequestMap (tr (serving noReturns))
             \<lparr>requestID = reqID (fakeRequest 1 (Some [0, 7])), keyPeer = ''B''\<rparr>
             = Some \<lparr>Initiator = ''B'', ID = 7\<rparr>"
    by (simp add: serving_eq fakeRequest_def)
  have b: "responseProgressMap (tr (serving noReturns)) \<lparr>Initiator = ''B'', ID = 7\<rparr>
             = Some \<lparr>currentSent = 0, maximumSent = 0\<rparr>"
    by (simp add: serving_eq)
  have c: "events (tr (serving noReturns)) = Some (fakeEvents noReturns)"
    by (simp add: serving_eq)
  show ?thesis
    using reachable_serving a b c
      progress_watermarks [OF reachable_serving a b c, of testBlock]
    by (simp add: fakeRequest_def testBlock_def) metis
qed

text \<open>
  Claim C10. Before \<^verbatim>\<open>SetEventHandler\<close> has been called (the events handler is unset),
  \<^verbatim>\<open>OpenChannel\<close>, \<^verbatim>\<open>PauseChannel\<close>, \<^verbatim>\<open>ResumeChannel\<close> and \<^verbatim>\<open>CloseChannel\<close> each return
  \<^verbatim>\<open>ErrHandlerNotSet\<close> and leave the whole state, hence every correlation-store map,
  unchanged.
\<close>

theorem handler_not_set:
  assumes "events (tr w) = None"
  shows "OpenChannel cdc dataSender chid root stor msg w = (Some ErrHandlerNotSet, w)
       \<and> PauseChannel ctxDone chid w = (Returns (Some ErrHandlerNotSet), w)
       \<and> ResumeChannel cdc ctxDone omsg chid w = (Returns (Some ErrHandlerNotSet), w)
       \<and> CloseChannel ctxDone chid w = (Returns (Some ErrHandlerNotSet), w)"
  using assms
  by (simp add: OpenChannel_def PauseChannel_def ResumeChannel_def CloseChannel_def)

theorem handler_not_set_witness:
  "events (tr fresh) = None
   \<and> OpenChannel testCodec ''B'' \<lparr>Initiator = ''A'', ID = 7\<rparr> ''root'' None
         (Request (testRequest 7)) fresh = (Some ErrHandlerNotSet, fresh)
   \<and> PauseChannel False \<lparr>Initiator = ''A'', ID = 7\<rparr> fresh
       = (Returns (Some ErrHandlerNotSet), fresh)
   \<and> ResumeChannel testCodec False None \<lparr>Initiator = ''A'', ID = 7\<rparr> fresh
       = (Returns (Some ErrHandlerNotSet), fresh)
   \<and> CloseChannel False \<lparr>Initiator = ''A'', ID = 7\<rparr> fresh
       = (Returns (Some ErrHandlerNotSet), fresh)"
proof -
  have h: "events (tr fresh) = None"
    by (simp add: fresh_def NewTransport_def)
  show ?thesis
    using h handler_not_set [OF h] by simp
qed

end
